theory Spec2Isabelle
  imports Complex_Main "HOL-Library.AList" "HOL-Library.Sublist"
begin

section \<open>Values of the worker: JSON objects as Python sees them\<close>

text \<open>
  Everything the handler of \<^verbatim>\<open>handler.py\<close> touches is a JSON value: the event, the
  workflow template, the submission payload, the history record of the generation
  service and the response. A Python \<^verbatim>\<open>dict\<close> keeps insertion order and the code
  iterates over it, so an object is an association list with distinct keys; a float is
  carried by its exact value.
\<close>

datatype json =
    JNull
  | JBool bool
  | JInt int
  | JFloat real
  | JStr string
  | JArr "json list"
  | JObj "(string \<times> json) list"

text \<open>
  Exceptions. \<open>PyException\<close> is \<^verbatim>\<open>raise Exception(msg)\<close>, \<open>RuntimeError\<close> is
  \<^verbatim>\<open>raise RuntimeError(msg)\<close>; the others are raised by the interpreter, the
  operating system and the libraries. A constructor is one class, the class whose name
  the traceback prints: \<open>FileNotFoundError\<close>, \<open>IsADirectoryError\<close> and
  \<open>PermissionError\<close> are the subclasses of \<open>OSError\<close> the file operations raise,
  \<open>OSError\<close> is one of the class itself, \<open>JSONDecodeError\<close> is the class of the
  \<^verbatim>\<open>json\<close> module and \<open>RequestsJSONDecodeError\<close> the one \<^verbatim>\<open>requests\<close> raises
  from \<^verbatim>\<open>Response.json()\<close>. \<open>Raised c\<close> is an exception of any other class, \<open>c\<close>
  being the name of the class as the traceback prints it.
\<close>

datatype exn =
    PyException string
  | RuntimeError string
  | KeyError json
  | TypeError
  | AttributeError
  | ValueError
  | IndexError
  | OSError
  | FileNotFoundError
  | IsADirectoryError
  | PermissionError
  | JSONDecodeError
  | RequestsJSONDecodeError
  | RequestException
  | Raised string

text \<open>
  A statement sequence either raises, returns from the function early, or falls through
  to the next statement with a value.
\<close>

datatype 'a outcome = Raise exn | Return json | Continue 'a

definition bind_exn :: "exn + 'a \<Rightarrow> ('a \<Rightarrow> exn + 'b) \<Rightarrow> exn + 'b" where
  "bind_exn m f = (case m of Inl e \<Rightarrow> Inl e | Inr x \<Rightarrow> f x)"

subsection \<open>The operators of Python the handler uses\<close>

text \<open>\<^verbatim>\<open>c[k]\<close> with a string key \<open>k\<close>: only a dict accepts one.\<close>

fun py_getitem :: "json \<Rightarrow> string \<Rightarrow> exn + json" where
  "py_getitem (JObj kvs) k =
     (case map_of kvs k of None \<Rightarrow> Inl (KeyError (JStr k)) | Some v \<Rightarrow> Inr v)"
| "py_getitem _ k = Inl TypeError"

text \<open>
  \<^verbatim>\<open>c[k] = v\<close> with a string key: a dict replaces the value of a key it has, in
  place, and appends a new key at the end; a list, a string and the scalars raise.
\<close>

fun py_setitem :: "json \<Rightarrow> string \<Rightarrow> json \<Rightarrow> exn + json" where
  "py_setitem (JObj kvs) k v = Inr (JObj (AList.update k v kvs))"
| "py_setitem _ k v = Inl TypeError"

text \<open>
  \<^verbatim>\<open>k in c\<close> with a string \<open>k\<close>: key membership in a dict, element membership in a
  list, substring test in a string; the scalars are not iterable.
\<close>

fun py_in :: "string \<Rightarrow> json \<Rightarrow> exn + bool" where
  "py_in k (JObj kvs) = Inr (k \<in> set (map fst kvs))"
| "py_in k (JArr xs) = Inr (JStr k \<in> set xs)"
| "py_in k (JStr s) = Inr (sublist k s)"
| "py_in k _ = Inl TypeError"

text \<open>\<^verbatim>\<open>c.get(k)\<close>: a method of dict only; a missing key gives \<^verbatim>\<open>None\<close>.\<close>

fun py_get :: "json \<Rightarrow> string \<Rightarrow> exn + json" where
  "py_get (JObj kvs) k = Inr (case map_of kvs k of None \<Rightarrow> JNull | Some v \<Rightarrow> v)"
| "py_get _ k = Inl AttributeError"

text \<open>\<^verbatim>\<open>c.items()\<close>: a method of dict only.\<close>

fun py_items :: "json \<Rightarrow> exn + (string \<times> json) list" where
  "py_items (JObj kvs) = Inr kvs"
| "py_items _ = Inl AttributeError"

text \<open>\<^verbatim>\<open>len(c)\<close>.\<close>

fun py_len :: "json \<Rightarrow> exn + nat" where
  "py_len (JObj kvs) = Inr (length kvs)"
| "py_len (JArr xs) = Inr (length xs)"
| "py_len (JStr s) = Inr (length s)"
| "py_len _ = Inl TypeError"

text \<open>
  \<^verbatim>\<open>c[k]\<close> where the key is itself a value (the handler indexes the history record
  with the prompt id the service returned). A dict of JSON has string keys only, so any
  other hashable key is missing; a list or a dict as key is unhashable. A list and a
  string are indexed by an integer, a negative one counting from the end
  (\<^verbatim>\<open>True\<close> and \<^verbatim>\<open>False\<close> are the integers 1 and 0).
\<close>

definition py_position :: "nat \<Rightarrow> int \<Rightarrow> nat option" where
  "py_position n i =
     (let j = (if i < 0 then int n + i else i)
      in if 0 \<le> j \<and> j < int n then Some (nat j) else None)"

fun py_int_key :: "json \<Rightarrow> int option" where
  "py_int_key (JInt i) = Some i"
| "py_int_key (JBool b) = Some (if b then 1 else 0)"
| "py_int_key _ = None"

fun py_subscript :: "json \<Rightarrow> json \<Rightarrow> exn + json" where
  "py_subscript (JObj kvs) (JStr k) = py_getitem (JObj kvs) k"
| "py_subscript (JObj kvs) (JArr ks) = Inl TypeError"
| "py_subscript (JObj kvs) (JObj ks) = Inl TypeError"
| "py_subscript (JObj kvs) k = Inl (KeyError k)"
| "py_subscript (JArr xs) k =
     (case py_int_key k of
        None \<Rightarrow> Inl TypeError
      | Some i \<Rightarrow> (case py_position (length xs) i of
                     None \<Rightarrow> Inl IndexError
                   | Some j \<Rightarrow> Inr (xs ! j)))"
| "py_subscript (JStr s) k =
     (case py_int_key k of
        None \<Rightarrow> Inl TypeError
      | Some i \<Rightarrow> (case py_position (length s) i of
                     None \<Rightarrow> Inl IndexError
                   | Some j \<Rightarrow> Inr (JStr [s ! j])))"
| "py_subscript _ k = Inl TypeError"

text \<open>Truth value of an object, as \<^verbatim>\<open>if x:\<close> and \<^verbatim>\<open>and\<close> take it.\<close>

fun py_truthy :: "json \<Rightarrow> bool" where
  "py_truthy JNull = False"
| "py_truthy (JBool b) = b"
| "py_truthy (JInt i) = (i \<noteq> 0)"
| "py_truthy (JFloat x) = (x \<noteq> 0)"
| "py_truthy (JStr s) = (s \<noteq> [])"
| "py_truthy (JArr xs) = (xs \<noteq> [])"
| "py_truthy (JObj kvs) = (kvs \<noteq> [])"

fun is_str :: "json \<Rightarrow> bool" where
  "is_str (JStr s) = True"
| "is_str _ = False"

fun is_dict :: "json \<Rightarrow> bool" where
  "is_dict (JObj kvs) = True"
| "is_dict _ = False"

fun is_list :: "json \<Rightarrow> bool" where
  "is_list (JArr xs) = True"
| "is_list _ = False"

section \<open>The world outside the handler\<close>

text \<open>
  What the handler reads from its surroundings and cannot compute is a field of the
  environment: the resource snapshots, the validator, the workflow templates on disk,
  the random tokens, the generation service and the text forms the interpreter gives to
  values.
  \<^item> \<open>memory_available n\<close> is \<^verbatim>\<open>get_container_memory_info(job_id).get('available')\<close>
    at its \<open>n\<close>-th call (0 before the job, 1 after it), in GB; \<open>None\<close> is Python's
    \<^verbatim>\<open>None\<close>. \<open>disk_free_bytes\<close> is
    \<^verbatim>\<open>get_container_disk_info(job_id).get('free_bytes')\<close>. Both functions catch every
    exception themselves and return a dict.
  \<^item> \<open>validate\<close> is \<^verbatim>\<open>validate(raw, INPUT_SCHEMA)\<close> of the RunPod SDK.
  \<^item> \<open>load_template p\<close> is \<^verbatim>\<open>json.load(open(p, 'r'))\<close>.
  \<^item> \<open>uuid4 i\<close> is the text of the \<open>i\<close>-th token \<^verbatim>\<open>str(uuid.uuid4())\<close> drawn.
  \<^item> \<open>send_post_request\<close> and \<open>send_get_request\<close> are the two HTTP calls; the second
    takes the number of the attempt, so that a scripted service can be written down.
  \<^item> \<open>dir_status\<close> says of a directory the scan visits whether it exists and whether
    \<^verbatim>\<open>os.listdir\<close> succeeds on it; \<open>Unlistable e\<close> is a path that exists and on
    which \<^verbatim>\<open>os.listdir\<close> raises \<open>e\<close>.
  \<^item> \<open>str_of\<close> is \<^verbatim>\<open>str(v)\<close> of a value that is not a string, \<open>fmt_2f\<close> the
    format \<^verbatim>\<open>:.2f\<close>, \<open>str_int\<close> the decimal text of an integer, \<open>exc_text\<close> the text
    \<^verbatim>\<open>str(e)\<close> of an exception the libraries raise, and \<open>stack\<close> the frame lines
    \<^verbatim>\<open>traceback.format_exc()\<close> prints for an exception.
\<close>

record http_response =
  status_code :: int
  json_body :: "exn + json"
  raw_content :: string

datatype dir_status = Missing | Unlistable exn | Listable

record env =
  memory_available :: "nat \<Rightarrow> real option"
  disk_free_bytes :: "int option"
  validate :: "json \<Rightarrow> exn + json"
  load_template :: "string \<Rightarrow> exn + json"
  uuid4 :: "nat \<Rightarrow> string"
  send_post_request :: "string \<Rightarrow> json \<Rightarrow> exn + http_response"
  send_get_request :: "string \<Rightarrow> nat \<Rightarrow> exn + http_response"
  dir_status :: "string \<Rightarrow> dir_status"
  str_of :: "json \<Rightarrow> string"
  str_int :: "int \<Rightarrow> string"
  fmt_2f :: "real \<Rightarrow> string"
  exc_text :: "exn \<Rightarrow> string"
  stack :: "exn \<Rightarrow> string"

text \<open>
  An entry of the file system, by what the handler can do with it: \<open>f_size\<close> is
  \<^verbatim>\<open>os.path.getsize\<close>; \<open>f_jpeg\<close> is the outcome of the block that opens the file
  with PIL, flattens it and re-encodes it as JPEG (the size of the JPEG bytes and their
  base64 text, or the exception); \<open>f_text\<close> is the outcome of reading it as UTF-8 text;
  \<open>f_binary\<close> the outcome of reading its bytes and decoding them with
  \<^verbatim>\<open>errors='replace'\<close>; \<open>f_remove\<close> is the exception \<^verbatim>\<open>os.remove\<close> raises on
  it, \<open>None\<close> when the removal succeeds. The disk maps every path that exists, as
  the handler spells it, to its entry, regular file or directory, each path once. A
  directory is an entry that no operation opens and that \<^verbatim>\<open>os.remove\<close> refuses with
  \<open>IsADirectoryError\<close>.
\<close>

record file_entry =
  f_size :: nat
  f_jpeg :: "exn + nat \<times> string"
  f_text :: "exn + string"
  f_binary :: "exn + string"
  f_remove :: "exn option"

type_synonym disk = "(string \<times> file_entry) list"

datatype level = DEBUG | INFO | WARNING | ERROR

text \<open>
  The state the handler changes: the disk, the calls to \<^verbatim>\<open>logging\<close> (level, message,
  extra arguments), the bodies posted to the generation service and the paths of the
  template files opened.
\<close>

record world =
  disk :: disk
  logged :: "(level \<times> string \<times> json list) list"
  posted :: "json list"
  opened :: "string list"

definition say :: "level \<Rightarrow> string \<Rightarrow> json list \<Rightarrow> world \<Rightarrow> world" where
  "say lvl msg args w = w\<lparr>logged := logged w @ [(lvl, msg, args)]\<rparr>"

text \<open>
  \<^verbatim>\<open>os.path.exists\<close> and \<^verbatim>\<open>os.remove\<close> on a path; the removal of a path that does
  not exist raises \<open>FileNotFoundError\<close>.
\<close>

definition path_exists :: "world \<Rightarrow> string \<Rightarrow> bool" where
  "path_exists w p = (map_of (disk w) p \<noteq> None)"

definition os_remove :: "world \<Rightarrow> string \<Rightarrow> exn + world" where
  "os_remove w p =
     (case map_of (disk w) p of
        None \<Rightarrow> Inl FileNotFoundError
      | Some f \<Rightarrow>
          (case f_remove f of
             None \<Rightarrow> Inr (w\<lparr>disk := AList.delete p (disk w)\<rparr>)
           | Some e \<Rightarrow> Inl e))"

text \<open>
  \<^verbatim>\<open>os.listdir(d)\<close>: the names directly under \<open>d\<close>, in the order of the disk.
\<close>

definition listdir :: "world \<Rightarrow> string \<Rightarrow> string list" where
  "listdir w d =
     [drop (length d + 1) p. p \<leftarrow> map fst (disk w),
        prefix (d @ ''/'') p,
        drop (length d + 1) p \<noteq> [],
        CHR ''/'' \<notin> set (drop (length d + 1) p)]"

text \<open>An f-string field \<^verbatim>\<open>{v}\<close>: a string is itself, anything else is \<^verbatim>\<open>str(v)\<close>.\<close>

fun py_str :: "env \<Rightarrow> json \<Rightarrow> string" where
  "py_str E (JStr s) = s"
| "py_str E v = str_of E v"

section \<open>Building the submission payload\<close>

text \<open>
  \<^verbatim>\<open>node["inputs"][slot] = v\<close> and \<^verbatim>\<open>workflow[key]["inputs"][slot] = v\<close>: the
  subscripts are read, then the value is stored in the inputs of the node, which stays
  where it is in the template.
\<close>

definition set_input :: "json \<Rightarrow> string \<Rightarrow> json \<Rightarrow> exn + json" where
  "set_input node slot v =
     bind_exn (py_getitem node ''inputs'') (\<lambda>inputs.
     bind_exn (py_setitem inputs slot v) (\<lambda>inputs'.
     py_setitem node ''inputs'' inputs'))"

definition assign_slot :: "json \<Rightarrow> string \<Rightarrow> string \<Rightarrow> json \<Rightarrow> exn + json" where
  "assign_slot workflow key slot v =
     bind_exn (py_getitem workflow key) (\<lambda>node.
     bind_exn (set_input node slot v) (\<lambda>node'.
     py_setitem workflow key node'))"

text \<open>
  One assignment \<^verbatim>\<open>workflow[key]["inputs"][slot] = payload[param]\<close>; Python evaluates
  the right-hand side first.
\<close>

definition substitute :: "json \<Rightarrow> json \<Rightarrow> string \<times> string \<times> string \<Rightarrow> exn + json" where
  "substitute payload workflow m =
     (case m of (key, slot, param) \<Rightarrow>
        bind_exn (py_getitem payload param) (\<lambda>v. assign_slot workflow key slot v))"

fun substitute_all :: "json \<Rightarrow> json \<Rightarrow> (string \<times> string \<times> string) list \<Rightarrow> exn + json" where
  "substitute_all payload workflow [] = Inr workflow"
| "substitute_all payload workflow (m # ms) =
     bind_exn (substitute payload workflow m) (\<lambda>workflow'. substitute_all payload workflow' ms)"

text \<open>
  The assignments of \<^verbatim>\<open>get_txt2img_payload\<close> and \<^verbatim>\<open>get_img2img_payload\<close>, in the
  order of the source: (node, slot, parameter).
\<close>

definition txt2img_slots :: "(string \<times> string \<times> string) list" where
  "txt2img_slots =
    [(''3'', ''seed'', ''seed''),
     (''3'', ''steps'', ''steps''),
     (''3'', ''cfg'', ''cfg_scale''),
     (''3'', ''sampler_name'', ''sampler_name''),
     (''4'', ''ckpt_name'', ''ckpt_name''),
     (''5'', ''batch_size'', ''batch_size''),
     (''5'', ''width'', ''width''),
     (''5'', ''height'', ''height''),
     (''6'', ''text'', ''prompt''),
     (''7'', ''text'', ''negative_prompt'')]"

definition img2img_slots :: "(string \<times> string \<times> string) list" where
  "img2img_slots =
    [(''13'', ''seed'', ''seed''),
     (''13'', ''steps'', ''steps''),
     (''13'', ''cfg'', ''cfg_scale''),
     (''13'', ''sampler_name'', ''sampler_name''),
     (''13'', ''scheduler'', ''scheduler''),
     (''13'', ''denoise'', ''denoise''),
     (''1'', ''ckpt_name'', ''ckpt_name''),
     (''2'', ''width'', ''width''),
     (''2'', ''height'', ''height''),
     (''2'', ''target_width'', ''width''),
     (''2'', ''target_height'', ''height''),
     (''4'', ''width'', ''width''),
     (''4'', ''height'', ''height''),
     (''4'', ''target_width'', ''width''),
     (''4'', ''target_height'', ''height''),
     (''6'', ''text'', ''prompt''),
     (''7'', ''text'', ''negative_prompt'')]"

definition get_txt2img_payload :: "json \<Rightarrow> json \<Rightarrow> exn + json" where
  "get_txt2img_payload workflow payload = substitute_all payload workflow txt2img_slots"

definition get_img2img_payload :: "json \<Rightarrow> json \<Rightarrow> exn + json" where
  "get_img2img_payload workflow payload = substitute_all payload workflow img2img_slots"

text \<open>
  \<^verbatim>\<open>get_workflow_payload\<close>: the template \<^verbatim>\<open>/workflows/<name>.json\<close> is opened and
  loaded, and substituted when the name is \<^verbatim>\<open>txt2img\<close>; there is no other branch.
\<close>

definition workflow_path :: "env \<Rightarrow> json \<Rightarrow> string" where
  "workflow_path E workflow_name = ''/workflows/'' @ py_str E workflow_name @ ''.json''"

definition get_workflow_payload :: "env \<Rightarrow> world \<Rightarrow> json \<Rightarrow> json \<Rightarrow> (exn + json) \<times> world" where
  "get_workflow_payload E w workflow_name payload =
     (bind_exn (load_template E (workflow_path E workflow_name)) (\<lambda>workflow.
        if workflow_name = JStr ''txt2img'' then get_txt2img_payload workflow payload
        else Inr workflow),
      w\<lparr>opened := opened w @ [workflow_path E workflow_name]\<rparr>)"

text \<open>The value a template holds at a slot, when the template has it.\<close>

definition slot_value :: "json \<Rightarrow> string \<Rightarrow> string \<Rightarrow> json option" where
  "slot_value workflow key slot =
     (case bind_exn (py_getitem workflow key) (\<lambda>node.
           bind_exn (py_getitem node ''inputs'') (\<lambda>inputs. py_getitem inputs slot)) of
        Inl e \<Rightarrow> None
      | Inr v \<Rightarrow> Some v)"

subsection \<open>Unique filename prefixes\<close>

text \<open>
  \<^verbatim>\<open>create_unique_filename_prefix\<close> visits the nodes of the payload in order. Each
  assignment draws its own token; \<open>n\<close> counts the tokens drawn so far. The function
  mutates the payload in place; the model returns the mutated payload.
\<close>

definition text_output_types :: "json list" where
  "text_output_types =
     [JStr ''SaveText|pysssss'', JStr ''SaveText'', JStr ''TextFileOutput'', JStr ''WriteTextFile'']"

definition prepend_token :: "env \<Rightarrow> nat \<Rightarrow> string \<Rightarrow> json \<Rightarrow> json \<Rightarrow> exn + json \<times> nat" where
  "prepend_token E n slot inputs node =
     bind_exn (py_getitem inputs slot) (\<lambda>original_filename.
     bind_exn (set_input node slot (JStr (uuid4 E n @ ''_'' @ py_str E original_filename)))
       (\<lambda>node'. Inr (node', Suc n)))"

definition inject_node :: "env \<Rightarrow> nat \<Rightarrow> json \<Rightarrow> exn + json \<times> nat" where
  "inject_node E n node =
     bind_exn (py_get node ''class_type'') (\<lambda>class_type.
       if class_type = JStr ''SaveImage'' then
         bind_exn (set_input node ''filename_prefix'' (JStr (uuid4 E n)))
           (\<lambda>node'. Inr (node', Suc n))
       else if class_type \<in> set text_output_types then
         bind_exn (py_getitem node ''inputs'') (\<lambda>inputs.
         bind_exn (py_in ''filename_prefix'' inputs) (\<lambda>has_prefix.
           if has_prefix then
             bind_exn (set_input node ''filename_prefix'' (JStr (uuid4 E n)))
               (\<lambda>node'. Inr (node', Suc n))
           else
             bind_exn (py_in ''file'' inputs) (\<lambda>has_file.
               if has_file then prepend_token E n ''file'' inputs node
               else
                 bind_exn (py_in ''filename'' inputs) (\<lambda>has_filename.
                   if has_filename then prepend_token E n ''filename'' inputs node
                   else Inr (node, n)))))
       else Inr (node, n))"

fun inject_nodes :: "env \<Rightarrow> nat \<Rightarrow> (string \<times> json) list \<Rightarrow> exn + (string \<times> json) list" where
  "inject_nodes E n [] = Inr []"
| "inject_nodes E n ((key, node) # rest) =
     bind_exn (inject_node E n node) (\<lambda>(node', n').
     bind_exn (inject_nodes E n' rest) (\<lambda>rest'. Inr ((key, node') # rest')))"

definition create_unique_filename_prefix :: "env \<Rightarrow> json \<Rightarrow> exn + json" where
  "create_unique_filename_prefix E payload =
     bind_exn (py_items payload) (\<lambda>nodes.
     bind_exn (inject_nodes E 0 nodes) (\<lambda>nodes'. Inr (JObj nodes')))"

text \<open>
  The handler's search for the ``unique prefix'' (after the image loop): the first node,
  in the order of the payload, that is a dict with inputs and has one of the three
  slots decides. \<open>Some p\<close> is the \<^verbatim>\<open>break\<close> with \<open>unique_prefix = p\<close>, \<open>None\<close> goes on
  to the next node. \<^verbatim>\<open>filename.split('_')[0]\<close> is the text before the first
  underscore.
\<close>

definition token_of_filename :: "json \<Rightarrow> json option" where
  "token_of_filename filename =
     (case filename of
        JStr s \<Rightarrow> if CHR ''_'' \<in> set s then Some (JStr (takeWhile (\<lambda>c. c \<noteq> CHR ''_'') s))
                  else None
      | _ \<Rightarrow> None)"

definition has_str_slot :: "string \<Rightarrow> json \<Rightarrow> exn + bool" where
  "has_str_slot slot inputs =
     bind_exn (py_in slot inputs) (\<lambda>present.
       if present then bind_exn (py_getitem inputs slot) (\<lambda>v. Inr (is_str v))
       else Inr False)"

definition probe_node :: "json \<Rightarrow> exn + json option" where
  "probe_node node =
     (if \<not> is_dict node then Inr None
      else
        bind_exn (py_in ''inputs'' node) (\<lambda>has_inputs.
          if \<not> has_inputs then Inr None
          else
            bind_exn (py_getitem node ''inputs'') (\<lambda>inputs.
            bind_exn (py_in ''filename_prefix'' inputs) (\<lambda>has_prefix.
              if has_prefix then
                bind_exn (py_getitem inputs ''filename_prefix'') (\<lambda>p. Inr (Some p))
              else
                bind_exn (has_str_slot ''file'' inputs) (\<lambda>file_is_str.
                  if file_is_str then
                    bind_exn (py_getitem inputs ''file'') (\<lambda>filename.
                      Inr (token_of_filename filename))
                  else
                    bind_exn (has_str_slot ''filename'' inputs) (\<lambda>filename_is_str.
                      if filename_is_str then
                        bind_exn (py_getitem inputs ''filename'') (\<lambda>filename.
                          Inr (token_of_filename filename))
                      else Inr None))))))"

fun probe_nodes :: "(string \<times> json) list \<Rightarrow> exn + json" where
  "probe_nodes [] = Inr JNull"
| "probe_nodes ((key, node) # rest) =
     bind_exn (probe_node node) (\<lambda>found.
       case found of Some p \<Rightarrow> Inr p | None \<Rightarrow> probe_nodes rest)"

definition unique_prefix_of :: "json \<Rightarrow> exn + json" where
  "unique_prefix_of payload = bind_exn (py_items payload) probe_nodes"

section \<open>Exceptions as text\<close>

text \<open>
  \<^verbatim>\<open>str(e)\<close> is the message for the two exceptions the handler raises itself. The last
  line of \<^verbatim>\<open>traceback.format_exc()\<close> is the name of the exception class, followed by
  a colon and \<^verbatim>\<open>str(e)\<close> when that is not empty.
\<close>

fun exc_name :: "exn \<Rightarrow> string" where
  "exc_name (PyException m) = ''Exception''"
| "exc_name (RuntimeError m) = ''RuntimeError''"
| "exc_name (KeyError k) = ''KeyError''"
| "exc_name TypeError = ''TypeError''"
| "exc_name AttributeError = ''AttributeError''"
| "exc_name ValueError = ''ValueError''"
| "exc_name IndexError = ''IndexError''"
| "exc_name OSError = ''OSError''"
| "exc_name FileNotFoundError = ''FileNotFoundError''"
| "exc_name IsADirectoryError = ''IsADirectoryError''"
| "exc_name PermissionError = ''PermissionError''"
| "exc_name JSONDecodeError = ''json.decoder.JSONDecodeError''"
| "exc_name RequestsJSONDecodeError = ''requests.exceptions.JSONDecodeError''"
| "exc_name RequestException = ''requests.exceptions.RequestException''"
| "exc_name (Raised c) = c"

fun exc_str :: "env \<Rightarrow> exn \<Rightarrow> string" where
  "exc_str E (PyException m) = m"
| "exc_str E (RuntimeError m) = m"
| "exc_str E e = exc_text E e"

definition format_exc :: "env \<Rightarrow> exn \<Rightarrow> string" where
  "format_exc E e =
     ''Traceback (most recent call last):'' @ [CHR 0x0A] @ stack E e @ exc_name e @
     (if exc_str E e = [] then [] else '': '' @ exc_str E e) @ [CHR 0x0A]"

section \<open>Harvesting the artifacts\<close>

definition VOLUME_MOUNT_PATH :: string where
  "VOLUME_MOUNT_PATH = ''/runpod-volume''"

subsection \<open>Images the service reports\<close>

text \<open>
  \<^verbatim>\<open>get_output_files\<close>: every element of every \<^verbatim>\<open>images\<close> list of the outputs, in
  order, wrapped as \<^verbatim>\<open>{'type': 'image', 'data': image}\<close>.
\<close>

definition node_output_files :: "json \<Rightarrow> exn + json list" where
  "node_output_files v =
     bind_exn (py_in ''images'' v) (\<lambda>has_images.
       if \<not> has_images then Inr []
       else bind_exn (py_getitem v ''images'') (\<lambda>images.
         case images of
           JArr xs \<Rightarrow> Inr (map (\<lambda>image. JObj [(''type'', JStr ''image''), (''data'', image)]) xs)
         | _ \<Rightarrow> Inr []))"

fun collect_output_files :: "(string \<times> json) list \<Rightarrow> exn + json list" where
  "collect_output_files [] = Inr []"
| "collect_output_files ((key, v) # rest) =
     bind_exn (node_output_files v) (\<lambda>files.
     bind_exn (collect_output_files rest) (\<lambda>files'. Inr (files @ files')))"

definition get_output_files :: "json \<Rightarrow> exn + json list" where
  "get_output_files output = bind_exn (py_items output) collect_output_files"

definition size_line :: "env \<Rightarrow> string \<Rightarrow> nat \<Rightarrow> string \<Rightarrow> string" where
  "size_line E what n path =
     what @ '' image size: '' @ str_int E (int n) @ '' bytes ('' @
     fmt_2f E (real n / (1024 * 1024)) @ '' MB) for '' @ path"

text \<open>
  An image of location class \<^verbatim>\<open>output\<close> that exists: its size is logged, the
  conversion appends the encoded JPEG or logs its own failure, and the file is removed
  outside every \<^verbatim>\<open>try\<close>, so a failing removal leaves the loop.
\<close>

definition harvest_output_image ::
  "env \<Rightarrow> json \<Rightarrow> string \<Rightarrow> json list \<times> world \<Rightarrow> (exn + json list) \<times> world" where
  "harvest_output_image E job_id image_path s =
     (case s of (images, w) \<Rightarrow>
        (case map_of (disk w) image_path of
           None \<Rightarrow> (Inr images, w)
         | Some f \<Rightarrow>
             (let w1 = say INFO (size_line E ''Output'' (f_size f) image_path) [job_id] w;
                  converted =
                    (case f_jpeg f of
                       Inr (jpeg_size_bytes, image_data) \<Rightarrow>
                         (images @ [JStr image_data],
                          say INFO (size_line E ''JPEG'' jpeg_size_bytes image_path) [job_id] w1)
                     | Inl e \<Rightarrow>
                         (images,
                          say ERROR (''Error converting image to JPEG and logging size: '' @
                                     exc_str E e) [job_id] w1));
                  w2 = say INFO (''Converted and encoded image to JPEG: '' @ image_path) [job_id]
                         (snd converted);
                  w3 = say INFO (''Deleting output file: '' @ image_path) [job_id] w2
              in case os_remove w3 image_path of
                   Inl e \<Rightarrow> (Inl e, w3)
                 | Inr w4 \<Rightarrow> (Inr (fst converted), w4))))"

text \<open>A temp image that exists: the removal is tried and its failure only logged.\<close>

definition remove_temp :: "env \<Rightarrow> json \<Rightarrow> string \<Rightarrow> world \<Rightarrow> world" where
  "remove_temp E job_id image_path w =
     (let w1 = say INFO (''Deleting temp file: '' @ image_path) [job_id] w
      in case os_remove w1 image_path of
           Inl e \<Rightarrow> say ERROR (''Error deleting temp file '' @ image_path @ '': '' @ exc_str E e) [] w1
         | Inr w2 \<Rightarrow> w2)"

definition harvest_temp_image :: "env \<Rightarrow> json \<Rightarrow> string \<Rightarrow> world \<Rightarrow> world" where
  "harvest_temp_image E job_id filename w =
     (if path_exists w (VOLUME_MOUNT_PATH @ ''/ComfyUI/temp/'' @ filename)
      then remove_temp E job_id (VOLUME_MOUNT_PATH @ ''/ComfyUI/temp/'' @ filename) w
      else if path_exists w (''/tmp/'' @ filename)
      then remove_temp E job_id (''/tmp/'' @ filename) w
      else w)"

text \<open>The body of the loop over \<^verbatim>\<open>output_files\<close>.\<close>

definition harvest_output_file ::
  "env \<Rightarrow> json \<Rightarrow> json \<Rightarrow> json list \<times> world \<Rightarrow> (exn + json list) \<times> world" where
  "harvest_output_file E job_id output_file s =
     (case py_getitem output_file ''type'' of
        Inl e \<Rightarrow> (Inl e, snd s)
      | Inr ty \<Rightarrow>
          if ty \<noteq> JStr ''image'' then (Inr (fst s), snd s)
          else
            (case bind_exn (py_getitem output_file ''data'') (\<lambda>data.
                  bind_exn (py_get data ''filename'') (\<lambda>filename.
                  bind_exn (py_get data ''type'') (\<lambda>file_type. Inr (filename, file_type)))) of
               Inl e \<Rightarrow> (Inl e, snd s)
             | Inr (filename, file_type) \<Rightarrow>
                 if file_type = JStr ''output'' then
                   harvest_output_image E job_id
                     (VOLUME_MOUNT_PATH @ ''/ComfyUI/output/'' @ py_str E filename) s
                 else if file_type = JStr ''temp'' then
                   (Inr (fst s), harvest_temp_image E job_id (py_str E filename) (snd s))
                 else (Inr (fst s), snd s)))"

fun harvest_images ::
  "env \<Rightarrow> json \<Rightarrow> json list \<Rightarrow> json list \<times> world \<Rightarrow> (exn + json list) \<times> world" where
  "harvest_images E job_id [] s = (Inr (fst s), snd s)"
| "harvest_images E job_id (output_file # rest) s =
     (case harvest_output_file E job_id output_file s of
        (Inl e, w') \<Rightarrow> (Inl e, w')
      | (Inr images', w') \<Rightarrow> harvest_images E job_id rest (images', w'))"

subsection \<open>Text files found by scanning\<close>

definition text_extensions :: "string list" where
  "text_extensions = [''.txt'', ''.json'', ''.xml'', ''.csv'', ''.log'', ''.md'', ''.yaml'', ''.yml'']"

definition scan_dirs :: "string list" where
  "scan_dirs =
     [VOLUME_MOUNT_PATH @ ''/ComfyUI/output'', VOLUME_MOUNT_PATH @ ''/ComfyUI/temp'', ''/tmp'']"

text \<open>\<^verbatim>\<open>str.lower\<close> on the letters of ASCII.\<close>

definition lower_char :: "char \<Rightarrow> char" where
  "lower_char c =
     (let n = (of_char c :: nat) in if 65 \<le> n \<and> n \<le> 90 then char_of (n + 32) else c)"

definition is_text_name :: "string \<Rightarrow> bool" where
  "is_text_name filename =
     list_ex (\<lambda>ext. suffix ext (map lower_char filename)) text_extensions"

definition text_entry :: "string \<Rightarrow> string \<Rightarrow> json" where
  "text_entry filename content_text =
     JObj [(''filename'', JStr filename), (''content'', JStr content_text)]"

definition scan_error :: "env \<Rightarrow> json \<Rightarrow> string \<Rightarrow> exn \<Rightarrow> world \<Rightarrow> world" where
  "scan_error E job_id file_path e2 w =
     say ERROR (''Error processing additional text file '' @ file_path @ '': '' @ exc_str E e2)
       [job_id] w"

text \<open>
  The inner \<^verbatim>\<open>except\<close> branch: the file is read as bytes and decoded permissively,
  appended, logged and removed; any failure in there is logged.
\<close>

definition read_binary ::
  "env \<Rightarrow> json \<Rightarrow> string \<Rightarrow> string \<Rightarrow> json list \<times> world \<Rightarrow> json list \<times> world" where
  "read_binary E job_id file_path filename s =
     (case s of (text_files, w) \<Rightarrow>
        (case map_of (disk w) file_path of
           None \<Rightarrow> (text_files, scan_error E job_id file_path FileNotFoundError w)
         | Some f \<Rightarrow>
             (case f_binary f of
                Inl e2 \<Rightarrow> (text_files, scan_error E job_id file_path e2 w)
              | Inr content_text \<Rightarrow>
                  (let text_files' = text_files @ [text_entry filename content_text];
                       w1 = say INFO (''Found and processed additional text file (binary mode): '' @
                                      file_path) [job_id] w
                   in case os_remove w1 file_path of
                        Inl e2 \<Rightarrow> (text_files', scan_error E job_id file_path e2 w1)
                      | Inr w2 \<Rightarrow> (text_files', w2)))))"

text \<open>
  The inner \<^verbatim>\<open>try\<close>: the file is read as UTF-8 text, appended, logged and removed, all
  inside the \<^verbatim>\<open>try\<close>; an exception of any of these steps enters the branch above with
  the list as it is by then.
\<close>

definition read_text ::
  "env \<Rightarrow> json \<Rightarrow> string \<Rightarrow> string \<Rightarrow> json list \<times> world \<Rightarrow> json list \<times> world" where
  "read_text E job_id file_path filename s =
     (case s of (text_files, w) \<Rightarrow>
        (case map_of (disk w) file_path of
           None \<Rightarrow> read_binary E job_id file_path filename (text_files, w)
         | Some f \<Rightarrow>
             (case f_text f of
                Inl e \<Rightarrow> read_binary E job_id file_path filename (text_files, w)
              | Inr content_text \<Rightarrow>
                  (let text_files' = text_files @ [text_entry filename content_text];
                       w1 = say INFO (''Found and processed additional text file: '' @ file_path)
                              [job_id] w
                   in case os_remove w1 file_path of
                        Inl e \<Rightarrow> read_binary E job_id file_path filename (text_files', w1)
                      | Inr w2 \<Rightarrow> (text_files', w2)))))"

text \<open>
  The body of the loop over the names of one directory. The prefix test is made only
  when \<^verbatim>\<open>unique_prefix\<close> is true as a condition; \<^verbatim>\<open>str.startswith\<close> raises
  \<^verbatim>\<open>TypeError\<close> on an argument that is not a string.
\<close>

definition scan_file ::
  "env \<Rightarrow> json \<Rightarrow> json \<Rightarrow> string \<Rightarrow> string \<Rightarrow> json list \<times> world \<Rightarrow>
     exn option \<times> json list \<times> world" where
  "scan_file E job_id unique_prefix scan_dir filename s =
     (if \<not> is_text_name filename then (None, s)
      else if \<not> py_truthy unique_prefix
      then (None, read_text E job_id (scan_dir @ ''/'' @ filename) filename s)
      else
        (case unique_prefix of
           JStr p \<Rightarrow>
             if \<not> prefix p filename then (None, s)
             else (None, read_text E job_id (scan_dir @ ''/'' @ filename) filename s)
         | _ \<Rightarrow> (Some TypeError, s)))"

fun scan_names ::
  "env \<Rightarrow> json \<Rightarrow> json \<Rightarrow> string \<Rightarrow> string list \<Rightarrow> json list \<times> world \<Rightarrow>
     exn option \<times> json list \<times> world" where
  "scan_names E job_id unique_prefix scan_dir [] s = (None, s)"
| "scan_names E job_id unique_prefix scan_dir (filename # rest) s =
     (case scan_file E job_id unique_prefix scan_dir filename s of
        (Some e, s') \<Rightarrow> (Some e, s')
      | (None, s') \<Rightarrow> scan_names E job_id unique_prefix scan_dir rest s')"

definition scan_warning :: "env \<Rightarrow> json \<Rightarrow> string \<Rightarrow> exn \<Rightarrow> world \<Rightarrow> world" where
  "scan_warning E job_id scan_dir e w =
     say WARNING (''Error scanning directory '' @ scan_dir @ '': '' @ exc_str E e) [job_id] w"

definition scan_directory ::
  "env \<Rightarrow> json \<Rightarrow> json \<Rightarrow> string \<Rightarrow> json list \<times> world \<Rightarrow> json list \<times> world" where
  "scan_directory E job_id unique_prefix scan_dir s =
     (case dir_status E scan_dir of
        Missing \<Rightarrow> s
      | Unlistable e \<Rightarrow> (fst s, scan_warning E job_id scan_dir e (snd s))
      | Listable \<Rightarrow>
          (case scan_names E job_id unique_prefix scan_dir (listdir (snd s) scan_dir) s of
             (None, s') \<Rightarrow> s'
           | (Some e, s') \<Rightarrow> (fst s', scan_warning E job_id scan_dir e (snd s'))))"

definition scan_for_text_files :: "env \<Rightarrow> json \<Rightarrow> json \<Rightarrow> world \<Rightarrow> json list \<times> world" where
  "scan_for_text_files E job_id unique_prefix w =
     foldl (\<lambda>s scan_dir. scan_directory E job_id unique_prefix scan_dir s) ([], w) scan_dirs"

section \<open>The job handler\<close>

subsection \<open>More of Python: iteration, unpacking and joining\<close>

text \<open>
  Iterating over a value: the elements of a list, the characters of a string, the keys
  of a dict. \<^verbatim>\<open>key, value = message\<close> needs exactly two of them.
\<close>

fun py_iter :: "json \<Rightarrow> exn + json list" where
  "py_iter (JArr xs) = Inr xs"
| "py_iter (JStr s) = Inr (map (\<lambda>c. JStr [c]) s)"
| "py_iter (JObj kvs) = Inr (map (\<lambda>kv. JStr (fst kv)) kvs)"
| "py_iter _ = Inl TypeError"

definition py_unpack2 :: "json \<Rightarrow> exn + json \<times> json" where
  "py_unpack2 v =
     bind_exn (py_iter v) (\<lambda>xs. case xs of [a, b] \<Rightarrow> Inr (a, b) | _ \<Rightarrow> Inl ValueError)"

fun str_items :: "json list \<Rightarrow> exn + string list" where
  "str_items [] = Inr []"
| "str_items (JStr s # rest) = bind_exn (str_items rest) (\<lambda>ss. Inr (s # ss))"
| "str_items (_ # rest) = Inl TypeError"

fun join_with :: "string \<Rightarrow> string list \<Rightarrow> string" where
  "join_with sep [] = []"
| "join_with sep [s] = s"
| "join_with sep (s # t # rest) = s @ sep @ join_with sep (t # rest)"

definition py_join :: "string \<Rightarrow> json \<Rightarrow> exn + string" where
  "py_join sep v =
     bind_exn (py_iter v) (\<lambda>xs. bind_exn (str_items xs) (\<lambda>ss. Inr (join_with sep ss)))"

definition raise_or :: "exn + 'a \<Rightarrow> ('a \<Rightarrow> 'b outcome) \<Rightarrow> 'b outcome" where
  "raise_or m f = (case m of Inl e \<Rightarrow> Raise e | Inr x \<Rightarrow> f x)"

subsection \<open>Before the submission\<close>

definition DISK_MIN_FREE_BYTES :: int where
  "DISK_MIN_FREE_BYTES = 500 * 1024 * 1024"

text \<open>
  The two checks at the head of the \<^verbatim>\<open>try\<close> block. A figure that is \<^verbatim>\<open>None\<close>
  passes its check.
\<close>

definition free_disk_check :: "env \<Rightarrow> exn + unit" where
  "free_disk_check E =
     (case disk_free_bytes E of
        None \<Rightarrow> Inr ()
      | Some free \<Rightarrow>
          if free < DISK_MIN_FREE_BYTES then
            Inl (PyException (''Insufficient free container disk space: '' @
                   fmt_2f E (real_of_int free / 1024 ^ 3) @
                   '' GB available (minimum 0.5 GB required)''))
          else Inr ())"

definition resource_guard :: "env \<Rightarrow> exn + unit" where
  "resource_guard E =
     (case memory_available E 0 of
        None \<Rightarrow> free_disk_check E
      | Some memory_available_gb \<Rightarrow>
          if memory_available_gb < 0.5 then
            Inl (PyException (''Insufficient available container memory: '' @
                   fmt_2f E memory_available_gb @
                   '' GB available (minimum 0.5 GB required)''))
          else free_disk_check E)"

text \<open>
  Validation, and the one renaming of a workflow: \<^verbatim>\<open>default\<close> becomes
  \<^verbatim>\<open>txt2img\<close>. The result is the workflow name and the payload of the job.
\<close>

definition validated_job :: "env \<Rightarrow> json \<Rightarrow> (json \<times> json) outcome" where
  "validated_job E event =
     raise_or (py_getitem event ''input'') (\<lambda>raw.
     raise_or (validate E raw) (\<lambda>validated_input.
     raise_or (py_in ''errors'' validated_input) (\<lambda>has_errors.
       if has_errors then
         raise_or (py_getitem validated_input ''errors'') (\<lambda>errors.
         raise_or (py_join [CHR 0x0A] errors) (\<lambda>text.
           Return (JObj [(''error'', JStr text)])))
       else
         raise_or (py_getitem validated_input ''validated_input'') (\<lambda>job.
         raise_or (py_getitem job ''workflow'') (\<lambda>workflow_name.
         raise_or (py_getitem job ''payload'') (\<lambda>payload.
           Continue (if workflow_name = JStr ''default'' then JStr ''txt2img''
                     else workflow_name, payload)))))))"

text \<open>
  The payload is the caller's when the workflow is \<^verbatim>\<open>custom\<close>, and built from the
  template otherwise; then the unique prefixes are injected.
\<close>

definition load_payload :: "env \<Rightarrow> world \<Rightarrow> json \<Rightarrow> json \<Rightarrow> json \<Rightarrow> (exn + json) \<times> world" where
  "load_payload E w job_id workflow_name payload =
     (if workflow_name \<noteq> JStr ''custom'' then
        (case get_workflow_payload E w workflow_name payload of
           (Inl e, w') \<Rightarrow>
             (Inl e, say ERROR (''Unable to load workflow payload for: '' @
                                py_str E workflow_name) [job_id] w')
         | (Inr p, w') \<Rightarrow> (Inr p, w'))
      else (Inr payload, w))"

definition build_payload :: "env \<Rightarrow> world \<Rightarrow> json \<Rightarrow> json \<Rightarrow> json \<Rightarrow> (exn + json) \<times> world" where
  "build_payload E w job_id workflow_name payload =
     (case load_payload E (say INFO (''Workflow: '' @ py_str E workflow_name) [job_id] w)
             job_id workflow_name payload of
        (Inl e, w') \<Rightarrow> (Inl e, w')
      | (Inr p, w') \<Rightarrow> (create_unique_filename_prefix E p, w'))"

text \<open>
  The submission: \<^verbatim>\<open>{'prompt': payload}\<close> is posted to \<^verbatim>\<open>prompt\<close>. Status 200 gives
  the prompt id; any other status returns the transport error response.
\<close>

definition queue_prompt :: "env \<Rightarrow> world \<Rightarrow> json \<Rightarrow> json \<Rightarrow> json outcome \<times> world" where
  "queue_prompt E w job_id payload =
     (let w1 = say DEBUG ''Queuing prompt'' [job_id] w;
          w2 = w1\<lparr>posted := posted w1 @ [JObj [(''prompt'', payload)]]\<rparr>
      in case send_post_request E ''prompt'' (JObj [(''prompt'', payload)]) of
           Inl e \<Rightarrow> (Raise e, w2)
         | Inr queue_response \<Rightarrow>
             if status_code queue_response = 200 then
               (case bind_exn (json_body queue_response)
                       (\<lambda>resp_json. py_getitem resp_json ''prompt_id'') of
                  Inl e \<Rightarrow> (Raise e, w2)
                | Inr prompt_id \<Rightarrow>
                    (Continue prompt_id,
                     say INFO (''Prompt queued successfully: '' @ py_str E prompt_id) [job_id] w2))
             else
               (let queue_response_content =
                      (case json_body queue_response of
                         Inl e \<Rightarrow> JStr (raw_content queue_response)
                       | Inr j \<Rightarrow> j);
                    w3 = say ERROR (''HTTP Status code: '' @
                                    str_int E (status_code queue_response)) [job_id] w2;
                    w4 = say ERROR (py_str E queue_response_content) [job_id] w3
                in (Return (JObj [(''error'', JStr (''HTTP status code: '' @
                                      str_int E (status_code queue_response))),
                                  (''output'', queue_response_content)]), w4)))"

text \<open>
  Everything between the guard and the poll loop: the validation, the payload and the
  submission.
\<close>

definition accept_job :: "env \<Rightarrow> world \<Rightarrow> json \<Rightarrow> json \<Rightarrow> (json \<times> json) outcome \<times> world" where
  "accept_job E w job_id event =
     (case validated_job E event of
        Raise e \<Rightarrow> (Raise e, w)
      | Return v \<Rightarrow> (Return v, w)
      | Continue (workflow_name, payload) \<Rightarrow>
          (case build_payload E w job_id workflow_name payload of
             (Inl e, w1) \<Rightarrow> (Raise e, w1)
           | (Inr payload', w1) \<Rightarrow>
               (case queue_prompt E w1 job_id payload' of
                  (Raise e, w2) \<Rightarrow> (Raise e, w2)
                | (Return v, w2) \<Rightarrow> (Return v, w2)
                | (Continue prompt_id, w2) \<Rightarrow> (Continue (payload', prompt_id), w2))))"

text \<open>
  Everything up to the poll loop. \<open>Continue (payload, prompt_id)\<close> is the state in
  which the loop starts.
\<close>

definition submission :: "env \<Rightarrow> world \<Rightarrow> json \<Rightarrow> json \<Rightarrow> (json \<times> json) outcome \<times> world" where
  "submission E w job_id event =
     (case resource_guard E of
        Inl e \<Rightarrow> (Raise e, w)
      | Inr u \<Rightarrow> accept_job E w job_id event)"

subsection \<open>Polling\<close>

text \<open>
  The \<^verbatim>\<open>while True\<close> loop; \<open>retries\<close> is its counter. The loop has no bound, so the
  result is an option: \<open>None\<close> is a loop that never ends. The sleep between two
  attempts has no effect on the values and is left out.
\<close>

definition status_line :: "env \<Rightarrow> json \<Rightarrow> json \<Rightarrow> level \<times> string \<times> json list" where
  "status_line E job_id prompt_id =
     (INFO, ''Getting status of prompt: '' @ py_str E prompt_id, [job_id])"

partial_function (option) poll ::
  "env \<Rightarrow> json \<Rightarrow> json \<Rightarrow> nat \<Rightarrow> world \<Rightarrow> ((exn + json) \<times> world) option" where
  "poll E job_id prompt_id retries w =
     (let w1 = (if retries = 0 \<or> retries mod 15 = 0
                then w\<lparr>logged := logged w @ [status_line E job_id prompt_id]\<rparr> else w)
      in case send_get_request E (''history/'' @ py_str E prompt_id) retries of
           Inl e \<Rightarrow> Some (Inl e, w1)
         | Inr r \<Rightarrow>
             (case json_body r of
                Inl e \<Rightarrow> Some (Inl e, w1)
              | Inr resp_json \<Rightarrow>
                  if status_code r = 200 then
                    (case py_len resp_json of
                       Inl e \<Rightarrow> Some (Inl e, w1)
                     | Inr n \<Rightarrow>
                         if n \<noteq> 0 then Some (Inr resp_json, w1)
                         else poll E job_id prompt_id (retries + 1) w1)
                  else poll E job_id prompt_id (retries + 1) w1))"

declare poll.simps [code]

subsection \<open>After the poll\<close>

text \<open>
  \<^verbatim>\<open>status['status_str'] == 'success' and status['completed']\<close>, as a condition.
\<close>

definition job_succeeded :: "json \<Rightarrow> exn + bool" where
  "job_succeeded status =
     bind_exn (py_getitem status ''status_str'') (\<lambda>status_str.
       if status_str = JStr ''success''
       then bind_exn (py_getitem status ''completed'') (\<lambda>completed. Inr (py_truthy completed))
       else Inr False)"

text \<open>
  The response of a successful job: the images always, the text files when the list is
  not empty, the refresh flag when the memory available after the job is known and
  below 1.0 GB.
\<close>

definition success_response ::
  "env \<Rightarrow> json \<Rightarrow> json list \<Rightarrow> json list \<Rightarrow> world \<Rightarrow> json \<times> world" where
  "success_response E job_id images text_files w =
     (let response = [(''images'', JArr images)];
          response1 = (if text_files \<noteq> []
                       then AList.update ''text_files'' (JArr text_files) response
                       else response)
      in case memory_available E 1 of
           None \<Rightarrow> (JObj response1, w)
         | Some memory_available_gb \<Rightarrow>
             if memory_available_gb < 1.0 then
               (JObj (AList.update ''refresh_worker'' (JBool True) response1),
                say INFO (''Low memory detected: '' @ fmt_2f E memory_available_gb @
                          '' GB available, refreshing worker'') [job_id] w)
             else (JObj response1, w))"

text \<open>
  The branch of a successful job, up to the response: the images of the outputs, the
  prefix read from the payload, and the text files of the scan.
\<close>

definition collect_artifacts ::
  "env \<Rightarrow> world \<Rightarrow> json \<Rightarrow> json \<Rightarrow> json \<Rightarrow> json \<Rightarrow> (exn + json list \<times> json list) \<times> world" where
  "collect_artifacts E w job_id payload prompt_id resp_json =
     (case bind_exn (py_subscript resp_json prompt_id) (\<lambda>entry. py_getitem entry ''outputs'') of
        Inl e \<Rightarrow> (Inl e, w)
      | Inr outputs \<Rightarrow>
          (let w1 = say INFO (''Files generated successfully for prompt: '' @
                              py_str E prompt_id) [job_id] w
           in case get_output_files outputs of
                Inl e \<Rightarrow> (Inl e, w1)
              | Inr output_files \<Rightarrow>
                  (case harvest_images E job_id output_files ([], w1) of
                     (Inl e, w2) \<Rightarrow> (Inl e, w2)
                   | (Inr images, w2) \<Rightarrow>
                       (case unique_prefix_of payload of
                          Inl e \<Rightarrow> (Inl e, w2)
                        | Inr unique_prefix \<Rightarrow>
                            (case scan_for_text_files E job_id unique_prefix w2 of
                               (text_files, w3) \<Rightarrow> (Inr (images, text_files), w3))))))"

definition harvest ::
  "env \<Rightarrow> world \<Rightarrow> json \<Rightarrow> json \<Rightarrow> json \<Rightarrow> json \<Rightarrow> (exn + json) \<times> world" where
  "harvest E w job_id payload prompt_id resp_json =
     (case collect_artifacts E w job_id payload prompt_id resp_json of
        (Inl e, w') \<Rightarrow> (Inl e, w')
      | (Inr (images, text_files), w') \<Rightarrow>
          (case success_response E job_id images text_files w' of
             (response, w'') \<Rightarrow> (Inr response, w'')))"

text \<open>
  The branch of a job that did not succeed: the loop over \<^verbatim>\<open>status['messages']\<close>.
  Only an \<^verbatim>\<open>execution_error\<close> message raises; when the loop ends, the function ends
  and the handler returns \<^verbatim>\<open>None\<close>.
\<close>

definition has_node_and_message :: "json \<Rightarrow> exn + bool" where
  "has_node_and_message v =
     bind_exn (py_in ''node_type'' v) (\<lambda>has_node.
       if has_node then py_in ''exception_message'' v else Inr False)"

definition generic_failure :: "env \<Rightarrow> json \<Rightarrow> string" where
  "generic_failure E prompt_id =
     ''Job did not process successfully for prompt_id: '' @ py_str E prompt_id"

fun failure_messages ::
  "env \<Rightarrow> world \<Rightarrow> json \<Rightarrow> json \<Rightarrow> json \<Rightarrow> json list \<Rightarrow> (exn + json) \<times> world" where
  "failure_messages E w job_id prompt_id resp_json [] = (Inr JNull, w)"
| "failure_messages E w job_id prompt_id resp_json (message # rest) =
     (case py_unpack2 message of
        Inl e \<Rightarrow> (Inl e, w)
      | Inr (key, v) \<Rightarrow>
          if key = JStr ''execution_error'' then
            (case has_node_and_message v of
               Inl e \<Rightarrow> (Inl e, w)
             | Inr True \<Rightarrow>
                 (case bind_exn (py_getitem v ''node_type'') (\<lambda>node_type.
                       bind_exn (py_getitem v ''exception_message'') (\<lambda>exception_message.
                         Inr (py_str E node_type @ '': '' @ py_str E exception_message))) of
                    Inl e \<Rightarrow> (Inl e, w)
                  | Inr text \<Rightarrow> (Inl (RuntimeError text), w))
             | Inr False \<Rightarrow>
                 (Inl (RuntimeError (generic_failure E prompt_id)),
                  say INFO (py_str E job_id @ '': Response JSON: '' @ py_str E resp_json) [job_id]
                    (say ERROR (generic_failure E prompt_id) [job_id] w)))
          else failure_messages E w job_id prompt_id resp_json rest)"

definition report_failure ::
  "env \<Rightarrow> world \<Rightarrow> json \<Rightarrow> json \<Rightarrow> json \<Rightarrow> json \<Rightarrow> (exn + json) \<times> world" where
  "report_failure E w job_id prompt_id resp_json status =
     (case bind_exn (py_getitem status ''messages'') py_iter of
        Inl e \<Rightarrow> (Inl e, w)
      | Inr messages \<Rightarrow> failure_messages E w job_id prompt_id resp_json messages)"

definition history_status :: "json \<Rightarrow> json \<Rightarrow> exn + json" where
  "history_status resp_json prompt_id =
     bind_exn (py_subscript resp_json prompt_id) (\<lambda>entry. py_getitem entry ''status'')"

definition handle_history ::
  "env \<Rightarrow> world \<Rightarrow> json \<Rightarrow> json \<Rightarrow> json \<Rightarrow> json \<Rightarrow> (exn + json) \<times> world" where
  "handle_history E w job_id payload prompt_id resp_json =
     (case history_status resp_json prompt_id of
        Inl e \<Rightarrow> (Inl e, w)
      | Inr status \<Rightarrow>
          (case job_succeeded status of
             Inl e \<Rightarrow> (Inl e, w)
           | Inr True \<Rightarrow> harvest E w job_id payload prompt_id resp_json
           | Inr False \<Rightarrow> report_failure E w job_id prompt_id resp_json status))"

subsection \<open>The handler\<close>

text \<open>
  The body of the \<^verbatim>\<open>try\<close> block: \<open>Inl\<close> is an exception on its way to the
  \<^verbatim>\<open>except\<close> clause, \<open>Inr\<close> a value the block returns.
\<close>

definition handler_try :: "env \<Rightarrow> world \<Rightarrow> json \<Rightarrow> json \<Rightarrow> ((exn + json) \<times> world) option" where
  "handler_try E w job_id event =
     (case submission E w job_id event of
        (Raise e, w1) \<Rightarrow> Some (Inl e, w1)
      | (Return v, w1) \<Rightarrow> Some (Inr v, w1)
      | (Continue (payload, prompt_id), w1) \<Rightarrow>
          (case poll E job_id prompt_id 0 w1 of
             None \<Rightarrow> None
           | Some (Inl e, w2) \<Rightarrow> Some (Inl e, w2)
           | Some (Inr resp_json, w2) \<Rightarrow>
               Some (handle_history E w2 job_id payload prompt_id resp_json)))"

text \<open>The \<^verbatim>\<open>except Exception\<close> clause at the end of the handler.\<close>

definition error_response :: "env \<Rightarrow> exn \<Rightarrow> json" where
  "error_response E e =
     JObj [(''error'', JStr (format_exc E e)), (''refresh_worker'', JBool True)]"

definition top_level :: "env \<Rightarrow> json \<Rightarrow> (exn + json) \<times> world \<Rightarrow> (exn + json) \<times> world" where
  "top_level E job_id r =
     (case r of
        (Inl e, w) \<Rightarrow>
          (Inr (error_response E e),
           say ERROR (''An exception was raised: '' @ exc_str E e) [job_id] w)
      | (Inr v, w) \<Rightarrow> (Inr v, w))"

text \<open>
  \<^verbatim>\<open>os.environ['RUNPOD_JOB_ID'] = job_id\<close>: the exception the store raises, \<open>None\<close>
  when it succeeds. The environment takes strings only (\<^verbatim>\<open>TypeError\<close>), and the
  operating system takes no string with a NUL character in it
  (\<^verbatim>\<open>ValueError: embedded null byte\<close>). The variable is read by the log handler
  only, which the model does not follow: a call to \<^verbatim>\<open>logging\<close> is recorded as made.
\<close>

fun environ_store :: "json \<Rightarrow> exn option" where
  "environ_store (JStr s) = (if CHR 0x00 \<in> set s then Some ValueError else None)"
| "environ_store _ = Some TypeError"

text \<open>
  \<^verbatim>\<open>handler(event)\<close>. The two statements before the \<^verbatim>\<open>try\<close> raise out of the
  handler: \<^verbatim>\<open>event['id']\<close>, and the store into \<^verbatim>\<open>os.environ\<close>. The result is
  \<open>None\<close> when the poll loop never ends, \<open>Inl\<close> for an exception that leaves the
  handler, and \<open>Inr\<close> for the value returned.
\<close>

definition handler :: "env \<Rightarrow> world \<Rightarrow> json \<Rightarrow> ((exn + json) \<times> world) option" where
  "handler E w event =
     (case py_getitem event ''id'' of
        Inl e \<Rightarrow> Some (Inl e, w)
      | Inr job_id \<Rightarrow>
          (case environ_store job_id of
             Some e \<Rightarrow> Some (Inl e, w)
           | None \<Rightarrow> map_option (top_level E job_id) (handler_try E w job_id event)))"

subsection \<open>Scripted services\<close>

text \<open>
  Two kinds of answers of the history endpoint: one whose body is empty (of length 0),
  and one with HTTP status 200 whose body \<open>j\<close> is not empty. The loop logs its status
  line at the attempts \<open>logs_at\<close> names.
\<close>

definition empty_body :: "exn + http_response \<Rightarrow> bool" where
  "empty_body r =
     (case r of
        Inl e \<Rightarrow> False
      | Inr resp \<Rightarrow> (case json_body resp of Inl e \<Rightarrow> False | Inr j \<Rightarrow> py_len j = Inr 0))"

definition filled_body :: "exn + http_response \<Rightarrow> json \<Rightarrow> bool" where
  "filled_body r j =
     (case r of
        Inl e \<Rightarrow> False
      | Inr resp \<Rightarrow>
          status_code resp = 200 \<and> json_body resp = Inr j \<and>
          (case py_len j of Inl e \<Rightarrow> False | Inr n \<Rightarrow> n \<noteq> 0))"

definition logs_at :: "nat \<Rightarrow> bool" where
  "logs_at i = (i = 0 \<or> i mod 15 = 0)"

subsection \<open>Messages of a failed job\<close>

text \<open>
  A message that unpacks into a key and a value, with a key other than
  \<^verbatim>\<open>execution_error\<close>: the loop over the messages passes it by.
\<close>

definition other_message :: "json \<Rightarrow> bool" where
  "other_message m =
     (case py_unpack2 m of Inl e \<Rightarrow> False | Inr (key, v) \<Rightarrow> key \<noteq> JStr ''execution_error'')"

subsection \<open>What the validator passed\<close>

text \<open>
  The validator accepts the input of the event, and the validated job has this workflow
  name and this payload.
\<close>

definition validated_as :: "env \<Rightarrow> json \<Rightarrow> json \<Rightarrow> json \<Rightarrow> bool" where
  "validated_as E event workflow_name payload =
     (case bind_exn (py_getitem event ''input'') (validate E) of
        Inl e \<Rightarrow> False
      | Inr v \<Rightarrow>
          py_in ''errors'' v = Inr False \<and>
          bind_exn (py_getitem v ''validated_input'') (\<lambda>job. py_getitem job ''workflow'')
            = Inr workflow_name \<and>
          bind_exn (py_getitem v ''validated_input'') (\<lambda>job. py_getitem job ''payload'')
            = Inr payload)"

subsection \<open>Requests to the outside\<close>

text \<open>
  What a run asked of the outside: the bodies posted to the generation service, in
  order, and the template files opened.
\<close>

definition requests :: "world \<Rightarrow> json list \<times> string list" where
  "requests w = (posted w, opened w)"

text \<open>
  What a job named \<^verbatim>\<open>custom\<close> posts for a payload: one body, the payload after
  \<^verbatim>\<open>create_unique_filename_prefix\<close> under the key \<^verbatim>\<open>prompt\<close>; nothing when the
  injection raises. The nodes the injection recognises are those of class
  \<^verbatim>\<open>SaveImage\<close> and of the text output classes; \<open>same_but_output\<close> relates a node
  of the payload to the node at the same place afterwards.
\<close>

definition submitted :: "env \<Rightarrow> json \<Rightarrow> json list" where
  "submitted E payload =
     (case create_unique_filename_prefix E payload of
        Inl e \<Rightarrow> []
      | Inr payload' \<Rightarrow> [JObj [(''prompt'', payload')]])"

definition output_node :: "json \<Rightarrow> bool" where
  "output_node node =
     (case py_get node ''class_type'' of
        Inl e \<Rightarrow> False
      | Inr class_type \<Rightarrow> class_type = JStr ''SaveImage'' \<or> class_type \<in> set text_output_types)"

definition same_but_output :: "string \<times> json \<Rightarrow> string \<times> json \<Rightarrow> bool" where
  "same_but_output kv kv' = (fst kv' = fst kv \<and> (\<not> output_node (snd kv) \<longrightarrow> snd kv' = snd kv))"

fun nodes_of :: "json \<Rightarrow> (string \<times> json) list" where
  "nodes_of (JObj kvs) = kvs"
| "nodes_of _ = []"

text \<open>
  What a job posts when its payload is built from the txt2img template: one body, the
  template of \<^verbatim>\<open>/workflows/txt2img.json\<close> after \<^verbatim>\<open>get_txt2img_payload\<close> and the
  prefix injection; nothing when the template does not load or a step raises.
\<close>

definition txt2img_request :: "env \<Rightarrow> json \<Rightarrow> json list" where
  "txt2img_request E payload =
     (case bind_exn (load_template E ''/workflows/txt2img.json'')
             (\<lambda>workflow. get_txt2img_payload workflow payload) of
        Inl e \<Rightarrow> []
      | Inr built \<Rightarrow> submitted E built)"

section \<open>Concrete jobs\<close>

text \<open>
  A worker with plenty of memory and disk, a validator that accepts its input as it is,
  no template on disk, and a service that accepts every prompt under the id
  \<^verbatim>\<open>p1\<close>. The scenarios below change one field each.
\<close>

definition job_record :: "json \<Rightarrow> json \<Rightarrow> json" where
  "job_record status outputs = JObj [(''p1'', JObj [(''status'', status), (''outputs'', outputs)])]"

definition reply :: "int \<Rightarrow> json \<Rightarrow> exn + http_response" where
  "reply code body = Inr \<lparr>status_code = code, json_body = Inr body, raw_content = []\<rparr>"

definition failed_status :: "json list \<Rightarrow> json" where
  "failed_status messages =
     JObj [(''status_str'', JStr ''error''), (''completed'', JBool False),
           (''messages'', JArr messages)]"

definition success_status :: json where
  "success_status =
     JObj [(''status_str'', JStr ''success''), (''completed'', JBool True),
           (''messages'', JArr [])]"

definition base_env :: env where
  "base_env = \<lparr>
     memory_available = (\<lambda>n. Some 8),
     disk_free_bytes = Some 100000000000,
     validate = (\<lambda>raw. Inr (JObj [(''validated_input'', raw)])),
     load_template = (\<lambda>p. Inl FileNotFoundError),
     uuid4 = (\<lambda>n. if n = 0 then ''aaaaaaaa-aaaa-4aaa-8aaa-aaaaaaaaaaaa''
                   else if n = 1 then ''bbbbbbbb-bbbb-4bbb-8bbb-bbbbbbbbbbbb''
                   else ''cccccccc-cccc-4ccc-8ccc-cccccccccccc''),
     send_post_request = (\<lambda>endpoint body. reply 200 (JObj [(''prompt_id'', JStr ''p1'')])),
     send_get_request = (\<lambda>endpoint n. reply 200 (job_record success_status (JObj []))),
     dir_status = (\<lambda>d. Listable),
     str_of = (\<lambda>v. ''?''),
     str_int = (\<lambda>i. ''?''),
     fmt_2f = (\<lambda>x. ''?''),
     exc_text = (\<lambda>e. ''?''),
     stack = (\<lambda>e. [])\<rparr>"

definition empty_world :: world where
  "empty_world = \<lparr>disk = [], logged = [], posted = [], opened = []\<rparr>"

definition job_event :: "string \<Rightarrow> json \<Rightarrow> json" where
  "job_event workflow_name payload =
     JObj [(''id'', JStr ''job1''),
           (''input'', JObj [(''workflow'', JStr workflow_name), (''payload'', payload)])]"

text \<open>An img2img template with the nodes the table of \<^verbatim>\<open>get_img2img_payload\<close> names.\<close>

definition img2img_template :: json where
  "img2img_template =
     JObj [(''1'', JObj [(''class_type'', JStr ''CheckpointLoaderSimple''),
                         (''inputs'', JObj [(''ckpt_name'', JStr ''base.safetensors'')])]),
           (''2'', JObj [(''class_type'', JStr ''CLIPTextEncodeSDXL''),
                         (''inputs'', JObj [(''width'', JInt 0), (''height'', JInt 0),
                                            (''target_width'', JInt 0), (''target_height'', JInt 0)])]),
           (''4'', JObj [(''class_type'', JStr ''CLIPTextEncodeSDXL''),
                         (''inputs'', JObj [(''width'', JInt 0), (''height'', JInt 0),
                                            (''target_width'', JInt 0), (''target_height'', JInt 0)])]),
           (''6'', JObj [(''class_type'', JStr ''CLIPTextEncode''),
                         (''inputs'', JObj [(''text'', JStr [])])]),
           (''7'', JObj [(''class_type'', JStr ''CLIPTextEncode''),
                         (''inputs'', JObj [(''text'', JStr [])])]),
           (''13'', JObj [(''class_type'', JStr ''KSampler''),
                          (''inputs'', JObj [(''seed'', JInt 0), (''steps'', JInt 1),
                                             (''cfg'', JInt 1), (''sampler_name'', JStr ''euler''),
                                             (''scheduler'', JStr ''normal''),
                                             (''denoise'', JInt 1)])])]"

definition img2img_params :: json where
  "img2img_params =
     JObj [(''seed'', JInt 42), (''steps'', JInt 20), (''cfg_scale'', JInt 7),
           (''sampler_name'', JStr ''dpmpp_2m''), (''scheduler'', JStr ''karras''),
           (''denoise'', JInt 1), (''ckpt_name'', JStr ''sdxl.safetensors''),
           (''width'', JInt 1024), (''height'', JInt 768),
           (''prompt'', JStr ''a cat''), (''negative_prompt'', JStr ''blurry'')]"

definition img2img_env :: env where
  "img2img_env =
     base_env\<lparr>load_template :=
       (\<lambda>p. if p = ''/workflows/img2img.json'' then Inr img2img_template
             else Inl FileNotFoundError)\<rparr>"

text \<open>A service that reports a failed job with no message at all.\<close>

definition silent_failure_env :: env where
  "silent_failure_env =
     base_env\<lparr>send_get_request :=
       (\<lambda>endpoint n. reply 200 (if n < 2 then JObj [] else job_record (failed_status []) (JObj [])))\<rparr>"

definition plain_payload :: json where
  "plain_payload =
     JObj [(''9'', JObj [(''class_type'', JStr ''SaveImage''),
                         (''inputs'', JObj [(''filename_prefix'', JStr ''ComfyUI'')])])]"

text \<open>A payload that saves an image and a text file.\<close>

definition image_and_text_payload :: json where
  "image_and_text_payload =
     JObj [(''9'', JObj [(''class_type'', JStr ''SaveImage''),
                         (''inputs'', JObj [(''filename_prefix'', JStr ''ComfyUI'')])]),
           (''10'', JObj [(''class_type'', JStr ''SaveText|pysssss''),
                          (''inputs'', JObj [(''file'', JStr ''caption.txt'')])])]"

definition image_and_text_injected :: json where
  "image_and_text_injected =
     JObj [(''9'', JObj [(''class_type'', JStr ''SaveImage''),
                         (''inputs'', JObj [(''filename_prefix'',
                                             JStr ''aaaaaaaa-aaaa-4aaa-8aaa-aaaaaaaaaaaa'')])]),
           (''10'', JObj [(''class_type'', JStr ''SaveText|pysssss''),
                          (''inputs'', JObj [(''file'',
                             JStr ''bbbbbbbb-bbbb-4bbb-8bbb-bbbbbbbbbbbb_caption.txt'')])])]"

text \<open>
  A text file: no image to PIL, readable, and protected against removal or not.
\<close>

definition readable :: "string \<Rightarrow> bool \<Rightarrow> file_entry" where
  "readable text removable =
     \<lparr>f_size = length text, f_jpeg = Inl (Raised ''PIL.UnidentifiedImageError''),
      f_text = Inr text, f_binary = Inr text,
      f_remove = (if removable then None else Some PermissionError)\<rparr>"

definition caption_world :: world where
  "caption_world =
     empty_world\<lparr>disk :=
       [(''/runpod-volume/ComfyUI/output/bbbbbbbb-bbbb-4bbb-8bbb-bbbbbbbbbbbb_caption.txt'',
         readable ''a cat'' True)]\<rparr>"

text \<open>A text file that can be read and cannot be removed.\<close>

definition locked_world :: world where
  "locked_world =
     empty_world\<lparr>disk := [(''/tmp/notes.txt'', readable ''hello'' False)]\<rparr>"

text \<open>A service whose history is empty for sixteen attempts.\<close>

definition slow_env :: env where
  "slow_env =
     base_env\<lparr>send_get_request :=
       (\<lambda>endpoint n. reply 200 (if n < 16 then JObj [] else job_record success_status (JObj [])))\<rparr>"

text \<open>
  A job that succeeds with one image and one text file on disk, on a worker whose memory
  is short after the job; \<open>queued\<close> and \<open>polled\<close> are the worlds after the
  submission and after the first poll of a custom job with this payload.
\<close>

definition picture :: file_entry where
  "picture =
     \<lparr>f_size = 2048, f_jpeg = Inr (1024, ''QUJD''),
      f_text = Inl (Raised ''UnicodeDecodeError''), f_binary = Inr ''?'', f_remove = None\<rparr>"

definition happy_record :: json where
  "happy_record = job_record success_status
         (JObj [(''9'', JObj [(''images'', JArr [JObj
            [(''filename'', JStr ''aaaaaaaa-aaaa-4aaa-8aaa-aaaaaaaaaaaa_00001_.png''),
             (''subfolder'', JStr []), (''type'', JStr ''output'')]])])])"

definition happy_env :: env where
  "happy_env =
     base_env\<lparr>
       memory_available := (\<lambda>n. if n = 0 then Some 8 else Some 0.75),
       send_get_request := (\<lambda>endpoint n. reply 200 happy_record)\<rparr>"

definition happy_world :: world where
  "happy_world =
     empty_world\<lparr>disk :=
       [(''/runpod-volume/ComfyUI/output/aaaaaaaa-aaaa-4aaa-8aaa-aaaaaaaaaaaa_00001_.png'', picture),
        (''/runpod-volume/ComfyUI/output/aaaaaaaa-aaaa-4aaa-8aaa-aaaaaaaaaaaa_00001_.txt'',
         readable ''a cat'' True)]\<rparr>"

definition plain_injected :: json where
  "plain_injected =
     JObj [(''9'', JObj [(''class_type'', JStr ''SaveImage''),
                         (''inputs'', JObj [(''filename_prefix'',
                                             JStr ''aaaaaaaa-aaaa-4aaa-8aaa-aaaaaaaaaaaa'')])])]"

definition queued :: "world \<Rightarrow> world" where
  "queued w =
     w\<lparr>logged := logged w @
          [(INFO, ''Workflow: custom'', [JStr ''job1'']),
           (DEBUG, ''Queuing prompt'', [JStr ''job1'']),
           (INFO, ''Prompt queued successfully: p1'', [JStr ''job1''])],
       posted := posted w @ [JObj [(''prompt'', plain_injected)]]\<rparr>"

definition polled :: "world \<Rightarrow> world" where
  "polled w =
     (queued w)\<lparr>logged := logged (queued w) @
          [(INFO, ''Getting status of prompt: p1'', [JStr ''job1''])]\<rparr>"

text \<open>
  Workers short of memory, short of disk, and without any figure; and a service that
  reports an out-of-memory error of the sampler node.
\<close>

definition low_memory_env :: env where
  "low_memory_env = base_env\<lparr>memory_available := (\<lambda>n. Some 0.25)\<rparr>"

definition low_disk_env :: env where
  "low_disk_env = base_env\<lparr>disk_free_bytes := Some 1000000\<rparr>"

definition blind_env :: env where
  "blind_env = base_env\<lparr>memory_available := (\<lambda>n. None), disk_free_bytes := None\<rparr>"

definition oom_messages :: "json list" where
  "oom_messages =
     [JArr [JStr ''execution_start'', JObj [(''prompt_id'', JStr ''p1'')]],
      JArr [JStr ''execution_error'',
            JObj [(''node_type'', JStr ''KSampler''),
                  (''exception_message'', JStr ''CUDA OOM'')]]]"

definition oom_env :: env where
  "oom_env =
     base_env\<lparr>send_get_request :=
       (\<lambda>endpoint n. reply 200 (job_record (failed_status oom_messages) (JObj [])))\<rparr>"

text \<open>A txt2img template with the nodes the table of \<^verbatim>\<open>get_txt2img_payload\<close> names.\<close>

definition txt2img_template :: json where
  "txt2img_template =
     JObj [(''3'', JObj [(''class_type'', JStr ''KSampler''),
                         (''inputs'', JObj [(''seed'', JInt 0), (''steps'', JInt 1),
                                            (''cfg'', JInt 1), (''sampler_name'', JStr ''euler'')])]),
           (''4'', JObj [(''class_type'', JStr ''CheckpointLoaderSimple''),
                         (''inputs'', JObj [(''ckpt_name'', JStr ''base.safetensors'')])]),
           (''5'', JObj [(''class_type'', JStr ''EmptyLatentImage''),
                         (''inputs'', JObj [(''batch_size'', JInt 1), (''width'', JInt 512),
                                            (''height'', JInt 512)])]),
           (''6'', JObj [(''class_type'', JStr ''CLIPTextEncode''),
                         (''inputs'', JObj [(''text'', JStr [])])]),
           (''7'', JObj [(''class_type'', JStr ''CLIPTextEncode''),
                         (''inputs'', JObj [(''text'', JStr [])])]),
           (''9'', JObj [(''class_type'', JStr ''SaveImage''),
                         (''inputs'', JObj [(''filename_prefix'', JStr ''ComfyUI'')])])]"

definition txt2img_params :: json where
  "txt2img_params =
     JObj [(''seed'', JInt 42), (''steps'', JInt 20), (''cfg_scale'', JInt 7),
           (''sampler_name'', JStr ''dpmpp_2m''), (''ckpt_name'', JStr ''sdxl.safetensors''),
           (''batch_size'', JInt 1), (''width'', JInt 1024), (''height'', JInt 768),
           (''prompt'', JStr ''a cat''), (''negative_prompt'', JStr ''blurry'')]"

definition txt2img_env :: env where
  "txt2img_env =
     base_env\<lparr>load_template :=
       (\<lambda>p. if p = ''/workflows/txt2img.json'' then Inr txt2img_template
             else Inl FileNotFoundError)\<rparr>"

text \<open>A caller's own graph: a sampler, an image output and a text output.\<close>

definition custom_payload :: json where
  "custom_payload =
     JObj [(''3'', JObj [(''class_type'', JStr ''KSampler''),
                         (''inputs'', JObj [(''seed'', JInt 7)])]),
           (''9'', JObj [(''class_type'', JStr ''SaveImage''),
                         (''inputs'', JObj [(''filename_prefix'', JStr ''ComfyUI'')])]),
           (''10'', JObj [(''class_type'', JStr ''SaveText|pysssss''),
                          (''inputs'', JObj [(''file'', JStr ''caption.txt'')])])]"

definition custom_injected :: json where
  "custom_injected =
     JObj [(''3'', JObj [(''class_type'', JStr ''KSampler''),
                         (''inputs'', JObj [(''seed'', JInt 7)])]),
           (''9'', JObj [(''class_type'', JStr ''SaveImage''),
                         (''inputs'', JObj [(''filename_prefix'',
                                             JStr ''aaaaaaaa-aaaa-4aaa-8aaa-aaaaaaaaaaaa'')])]),
           (''10'', JObj [(''class_type'', JStr ''SaveText|pysssss''),
                          (''inputs'', JObj [(''file'',
                             JStr ''bbbbbbbb-bbbb-4bbb-8bbb-bbbbbbbbbbbb_caption.txt'')])])]"

text \<open>
  The txt2img template above with the parameters above in its slots and the first token
  as the prefix of its \<^verbatim>\<open>SaveImage\<close> node.
\<close>

definition txt2img_injected :: json where
  "txt2img_injected =
     JObj [(''3'', JObj [(''class_type'', JStr ''KSampler''),
                         (''inputs'', JObj [(''seed'', JInt 42), (''steps'', JInt 20),
                                            (''cfg'', JInt 7),
                                            (''sampler_name'', JStr ''dpmpp_2m'')])]),
           (''4'', JObj [(''class_type'', JStr ''CheckpointLoaderSimple''),
                         (''inputs'', JObj [(''ckpt_name'', JStr ''sdxl.safetensors'')])]),
           (''5'', JObj [(''class_type'', JStr ''EmptyLatentImage''),
                         (''inputs'', JObj [(''batch_size'', JInt 1), (''width'', JInt 1024),
                                            (''height'', JInt 768)])]),
           (''6'', JObj [(''class_type'', JStr ''CLIPTextEncode''),
                         (''inputs'', JObj [(''text'', JStr ''a cat'')])]),
           (''7'', JObj [(''class_type'', JStr ''CLIPTextEncode''),
                         (''inputs'', JObj [(''text'', JStr ''blurry'')])]),
           (''9'', JObj [(''class_type'', JStr ''SaveImage''),
                         (''inputs'', JObj [(''filename_prefix'',
                                             JStr ''aaaaaaaa-aaaa-4aaa-8aaa-aaaaaaaaaaaa'')])])]"

text \<open>
  A directory where the service reports an output image, and an event whose id has a
  NUL character in it.
\<close>

definition directory :: file_entry where
  "directory =
     \<lparr>f_size = 4096, f_jpeg = Inl IsADirectoryError, f_text = Inl IsADirectoryError,
      f_binary = Inl IsADirectoryError, f_remove = Some IsADirectoryError\<rparr>"

definition folder_world :: world where
  "folder_world =
     empty_world\<lparr>disk :=
       [(''/runpod-volume/ComfyUI/output/aaaaaaaa-aaaa-4aaa-8aaa-aaaaaaaaaaaa_00001_.png'',
         directory)]\<rparr>"

definition nul_event :: json where
  "nul_event =
     JObj [(''id'', JStr [CHR ''a'', CHR 0x00, CHR ''b'']),
           (''input'', JObj [(''workflow'', JStr ''custom''), (''payload'', plain_payload)])]"

section \<open>Properties\<close>

subsection \<open>The parameter tables\<close>

text \<open>
  Claim C1. Every workflow other than \<^verbatim>\<open>custom\<close>, img2img among them, should come out
  of the payload builder with the slots of its table set from the parameters of the
  job. The builder substitutes for \<^verbatim>\<open>txt2img\<close> only: for \<^verbatim>\<open>img2img\<close> it returns the
  template as loaded, with seed 0 in node 13 where the job says 42, although
  \<^verbatim>\<open>get_img2img_payload\<close>, which nothing calls, would have set it.
\<close>

theorem img2img_template_not_substituted:
  "fst (get_workflow_payload img2img_env empty_world (JStr ''img2img'') img2img_params)
     = Inr img2img_template
   \<and> py_getitem img2img_params ''seed'' = Inr (JInt 42)
   \<and> slot_value img2img_template ''13'' ''seed'' = Some (JInt 0)
   \<and> (case get_img2img_payload img2img_template img2img_params of
         Inl e \<Rightarrow> None
       | Inr workflow \<Rightarrow> slot_value workflow ''13'' ''seed'') = Some (JInt 42)"
  by code_simp

subsection \<open>A failed job without an error message\<close>

text \<open>
  Claim C2. A job that ended without success and without an \<^verbatim>\<open>execution_error\<close>
  message should get the generic error response. With an empty message list the loop
  over the messages ends without raising, and the handler returns \<^verbatim>\<open>None\<close>.
\<close>

theorem handler_returns_none_on_silent_failure:
  "map_option fst (handler silent_failure_env empty_world (job_event ''custom'' plain_payload))
     = Some (Inr JNull)"
  by code_simp

subsection \<open>The prefix the scan uses\<close>

text \<open>
  Claim C3. The prefix search should recover the token injected into the text-output
  node. With a \<^verbatim>\<open>SaveImage\<close> node before the text node, the injection gives the text
  node the second token, the search returns the first (that of the image node), and the
  scan leaves the text file of the job where it is.
\<close>

theorem unique_prefix_is_the_image_token:
  "create_unique_filename_prefix base_env image_and_text_payload = Inr image_and_text_injected
   \<and> unique_prefix_of image_and_text_injected
         = Inr (JStr ''aaaaaaaa-aaaa-4aaa-8aaa-aaaaaaaaaaaa'')
   \<and> scan_for_text_files base_env (JStr ''job1'') (JStr ''aaaaaaaa-aaaa-4aaa-8aaa-aaaaaaaaaaaa'')
         caption_world = ([], caption_world)"
  by code_simp

subsection \<open>A file that cannot be removed\<close>

text \<open>
  Claim C4. A file in the text-file list should be gone from the disk and be listed
  once. When the removal fails, the exception enters the fallback, which reads the file
  again: the file is listed twice and is still on the disk.
\<close>

theorem undeletable_text_file_reported_twice:
  "fst (scan_for_text_files base_env (JStr ''job1'') JNull locked_world)
     = [text_entry ''notes.txt'' ''hello'', text_entry ''notes.txt'' ''hello'']
   \<and> path_exists (snd (scan_for_text_files base_env (JStr ''job1'') JNull locked_world))
        ''/tmp/notes.txt''"
  by code_simp

subsection \<open>The poll loop\<close>

lemma first_or_fifteenth: "(k = 0 \<or> k mod 15 = 0) = (k mod 15 = (0::nat))"
  by auto

lemma poll_empty_step:
  assumes "empty_body (send_get_request E (''history/'' @ py_str E prompt_id) k)"
  shows "poll E job_id prompt_id k w =
         poll E job_id prompt_id (Suc k)
           (if logs_at k then w\<lparr>logged := logged w @ [status_line E job_id prompt_id]\<rparr> else w)"
proof -
  from assms obtain r j where r: "send_get_request E (''history/'' @ py_str E prompt_id) k = Inr r"
    and j: "json_body r = Inr j" and len: "py_len j = Inr 0"
    by (auto simp: empty_body_def split: sum.splits)
  show ?thesis
    using r j len
    by (subst poll.simps) (simp add: logs_at_def first_or_fifteenth Let_def)
qed

lemma poll_filled_step:
  assumes "filled_body (send_get_request E (''history/'' @ py_str E prompt_id) k) resp_json"
  shows "poll E job_id prompt_id k w =
         Some (Inr resp_json,
           if logs_at k then w\<lparr>logged := logged w @ [status_line E job_id prompt_id]\<rparr> else w)"
proof -
  from assms obtain r n where r: "send_get_request E (''history/'' @ py_str E prompt_id) k = Inr r"
    and ok: "status_code r = 200" and j: "json_body r = Inr resp_json"
    and len: "py_len resp_json = Inr n" and n: "n \<noteq> 0"
    by (auto simp: filled_body_def split: sum.splits)
  show ?thesis
    using r ok j len n
    by (subst poll.simps) (simp add: logs_at_def first_or_fifteenth Let_def)
qed

lemma poll_from:
  assumes "\<forall>i<N. empty_body (send_get_request E (''history/'' @ py_str E prompt_id) i)"
    and "filled_body (send_get_request E (''history/'' @ py_str E prompt_id) N) resp_json"
    and "k \<le> N"
  shows "poll E job_id prompt_id k w =
         Some (Inr resp_json,
           w\<lparr>logged := logged w @
              replicate (length (filter logs_at [k..<Suc N])) (status_line E job_id prompt_id)\<rparr>)"
  using assms(3)
proof (induction "N - k" arbitrary: k w)
  case 0
  then have "k = N" by simp
  then show ?case
    using poll_filled_step[OF assms(2), of job_id w] by simp
next
  case (Suc d)
  then have lt: "k < N" and d: "d = N - Suc k" and le: "Suc k \<le> N" by simp_all
  have e: "empty_body (send_get_request E (''history/'' @ py_str E prompt_id) k)"
    using assms(1) lt by simp
  have upt: "[k..<Suc N] = k # [Suc k..<Suc N]"
    using lt by (simp add: upt_conv_Cons)
  show ?case
    unfolding poll_empty_step[OF e] Suc.hyps(1)[OF d le] upt
    by simp
qed

lemma count_logs_at: "length (filter logs_at [0..<Suc N]) = Suc (N div 15)"
proof (induction N)
  case 0
  show ?case by (simp add: logs_at_def)
next
  case (Suc N)
  have "[0..<Suc (Suc N)] = [0..<Suc N] @ [Suc N]" by simp
  then show ?case
    using Suc by (simp add: logs_at_def div_Suc del: upt_Suc)
qed

text \<open>
  Claim C9. Over a service that answers \<open>N\<close> times with an empty body and then with
  HTTP success and a body that is not empty, the poll loop ends at that answer and
  returns its record, and has logged its status line once for the first attempt and
  \<open>N div 15\<close> times more, and nothing else.
\<close>

theorem poll_stops_at_first_record:
  assumes "\<forall>i<N. empty_body (send_get_request E (''history/'' @ py_str E prompt_id) i)"
    and "filled_body (send_get_request E (''history/'' @ py_str E prompt_id) N) resp_json"
  shows "poll E job_id prompt_id 0 w =
         Some (Inr resp_json,
           w\<lparr>logged := logged w @
              replicate (1 + N div 15) (status_line E job_id prompt_id)\<rparr>)"
  using poll_from[OF assms, of 0 job_id w] unfolding count_logs_at by simp

theorem poll_stops_at_first_record_witness:
  "poll slow_env (JStr ''job1'') (JStr ''p1'') 0 empty_world =
     Some (Inr (job_record success_status (JObj [])),
       empty_world\<lparr>logged := replicate 2 (status_line slow_env (JStr ''job1'') (JStr ''p1''))\<rparr>)"
proof -
  have pending: "\<forall>i<16. empty_body
      (send_get_request slow_env (''history/'' @ py_str slow_env (JStr ''p1'')) i)"
    by (simp add: slow_env_def base_env_def reply_def empty_body_def)
  have final: "filled_body
      (send_get_request slow_env (''history/'' @ py_str slow_env (JStr ''p1'')) 16)
      (job_record success_status (JObj []))"
    by (simp add: slow_env_def base_env_def reply_def filled_body_def job_record_def)
  show ?thesis
    using poll_stops_at_first_record[OF pending final, of "JStr ''job1''" empty_world]
    by (simp add: empty_world_def numeral_2_eq_2)
qed

subsection \<open>The handler after the poll\<close>

lemma pair_from_fst: "fst p = a \<Longrightarrow> p = (a, snd p)"
  by (cases p) simp

text \<open>
  The job id decides whether the \<^verbatim>\<open>try\<close> block is entered: a string without a NUL
  character enters it, a string with one leaves the handler with \<^verbatim>\<open>ValueError\<close>
  before anything else happens.
\<close>

lemma handler_enters_try:
  assumes "py_getitem event ''id'' = Inr (JStr jid)"
    and "CHR 0x00 \<notin> set jid"
  shows "handler E w event =
         map_option (top_level E (JStr jid)) (handler_try E w (JStr jid) event)"
  using assms by (simp add: handler_def)

lemma handler_refuses_nul:
  assumes "py_getitem event ''id'' = Inr (JStr jid)"
    and "CHR 0x00 \<in> set jid"
  shows "handler E w event = Some (Inl ValueError, w)"
  using assms by (simp add: handler_def)

lemma handler_refuses_other_ids:
  assumes "py_getitem event ''id'' = Inr job_id"
    and "\<not> is_str job_id"
  shows "handler E w event = Some (Inl TypeError, w)"
  using assms by (cases job_id) (simp_all add: handler_def)

lemma handler_after_poll:
  assumes "py_getitem event ''id'' = Inr (JStr jid)"
    and "submission E w (JStr jid) event = (Continue (payload, prompt_id), w1)"
    and "poll E (JStr jid) prompt_id 0 w1 = Some (Inr resp_json, w2)"
    and "CHR 0x00 \<notin> set jid"
  shows "handler E w event =
         Some (top_level E (JStr jid) (handle_history E w2 (JStr jid) payload prompt_id resp_json))"
  using assms by (simp add: handler_def handler_try_def)

text \<open>
  An output image that \<^verbatim>\<open>os.remove\<close> refuses, a directory at the path of the image
  among them, ends the loop over the output files with the exception of the removal.
\<close>

lemma output_image_not_removed:
  assumes "map_of (disk w) image_path = Some f"
    and "f_remove f = Some e"
  shows "fst (harvest_output_image E job_id image_path (images, w)) = Inl e"
  using assms
  by (simp add: harvest_output_image_def os_remove_def say_def Let_def split: sum.splits)

lemma success_response_shape:
  "\<exists>r w'. success_response E job_id images text_files w = (JObj r, w')
     \<and> map_of r ''images'' = Some (JArr images)
     \<and> map_of r ''text_files'' = (if text_files = [] then None else Some (JArr text_files))
     \<and> map_of r ''refresh_worker'' =
           (case memory_available E 1 of
              None \<Rightarrow> None
            | Some m \<Rightarrow> if m < 1 then Some (JBool True) else None)
     \<and> distinct (map fst r)
     \<and> set (map fst r) \<subseteq> {''images'', ''text_files'', ''refresh_worker''}"
  by (auto simp: success_response_def Let_def split: option.splits)

subsection \<open>Runs that end in an exception\<close>

text \<open>
  Three runs on concrete inputs. A template that is not on disk is reported under the
  class \<^verbatim>\<open>FileNotFoundError\<close>. An id with a NUL character leaves the handler with
  \<^verbatim>\<open>ValueError\<close> before the guard is consulted: the worker is short of memory, and
  no error response is made. An output image whose path is a directory is sized, fails
  to convert, and its removal raises \<^verbatim>\<open>IsADirectoryError\<close>, which ends the job with
  the error response.
\<close>

lemma missing_template_is_named:
  "map_option fst (handler base_env empty_world (job_event ''txt2img'' txt2img_params))
     = Some (Inr (JObj [(''error'', JStr (''Traceback (most recent call last):'' @ [CHR 0x0A] @
                                           ''FileNotFoundError: ?'' @ [CHR 0x0A])),
                        (''refresh_worker'', JBool True)]))"
  by code_simp

lemma nul_in_the_job_id:
  "handler low_memory_env empty_world nul_event = Some (Inl ValueError, empty_world)"
  by code_simp

lemma output_image_is_a_directory:
  "map_option fst (handler happy_env folder_world (job_event ''custom'' plain_payload))
     = Some (Inr (JObj [(''error'', JStr (''Traceback (most recent call last):'' @ [CHR 0x0A] @
                                           ''IsADirectoryError: ?'' @ [CHR 0x0A])),
                        (''refresh_worker'', JBool True)]))"
proof -
  let ?ev = "job_event ''custom'' plain_payload"
  have h1: "py_getitem ?ev ''id'' = Inr (JStr ''job1'')"
    by (simp add: job_event_def)
  have h2: "submission happy_env folder_world (JStr ''job1'') ?ev
          = (Continue (plain_injected, JStr ''p1''), queued folder_world)"
    by code_simp
  have h3: "poll happy_env (JStr ''job1'') (JStr ''p1'') 0 (queued folder_world)
          = Some (Inr happy_record, polled folder_world)"
    by code_simp
  have h4: "CHR 0x00 \<notin> set ''job1''"
    by simp
  have "fst (handle_history happy_env (polled folder_world) (JStr ''job1'') plain_injected
               (JStr ''p1'') happy_record) = Inl IsADirectoryError"
    by (simp add: handle_history_def history_status_def job_succeeded_def harvest_def
          collect_artifacts_def happy_record_def job_record_def success_status_def
          bind_exn_def get_output_files_def node_output_files_def harvest_output_file_def
          harvest_output_image_def polled_def queued_def folder_world_def empty_world_def
          directory_def say_def os_remove_def VOLUME_MOUNT_PATH_def happy_env_def
          base_env_def size_line_def Let_def)
  then have "fst (top_level happy_env (JStr ''job1'')
                    (handle_history happy_env (polled folder_world) (JStr ''job1'')
                       plain_injected (JStr ''p1'') happy_record))
               = Inr (error_response happy_env IsADirectoryError)"
    by (auto simp: top_level_def split: prod.splits sum.splits)
  then show ?thesis
    unfolding handler_after_poll[OF h1 h2 h3 h4]
    by (simp add: error_response_def format_exc_def happy_env_def base_env_def)
qed

subsection \<open>The response of a successful job\<close>

text \<open>
  Claim C7. When the job, under an id the environment accepts (a string without a NUL
  character), has succeeded and the artifacts \<open>images\<close> and \<open>text_files\<close> have been
  collected, the handler returns a dict that has the key \<^verbatim>\<open>images\<close> with
  the image list, the key \<^verbatim>\<open>text_files\<close> exactly when the text-file list is not
  empty, the key \<^verbatim>\<open>refresh_worker\<close> (with \<^verbatim>\<open>True\<close>) exactly when the memory
  available after the job is known and below 1.0 GB, and no other key.
\<close>

theorem success_response_keys:
  assumes "py_getitem event ''id'' = Inr (JStr jid)"
    and "submission E w (JStr jid) event = (Continue (payload, prompt_id), w1)"
    and "poll E (JStr jid) prompt_id 0 w1 = Some (Inr resp_json, w2)"
    and "history_status resp_json prompt_id = Inr status"
    and "job_succeeded status = Inr True"
    and "collect_artifacts E w2 (JStr jid) payload prompt_id resp_json
           = (Inr (images, text_files), w3)"
    and "CHR 0x00 \<notin> set jid"
  shows "\<exists>r w'. handler E w event = Some (Inr (JObj r), w')
     \<and> map_of r ''images'' = Some (JArr images)
     \<and> map_of r ''text_files'' = (if text_files = [] then None else Some (JArr text_files))
     \<and> map_of r ''refresh_worker'' =
           (case memory_available E 1 of
              None \<Rightarrow> None
            | Some m \<Rightarrow> if m < 1 then Some (JBool True) else None)
     \<and> distinct (map fst r)
     \<and> set (map fst r) \<subseteq> {''images'', ''text_files'', ''refresh_worker''}"
proof -
  obtain r w' where r: "success_response E (JStr jid) images text_files w3 = (JObj r, w')"
    and shape: "map_of r ''images'' = Some (JArr images)"
      "map_of r ''text_files'' = (if text_files = [] then None else Some (JArr text_files))"
      "map_of r ''refresh_worker'' =
           (case memory_available E 1 of
              None \<Rightarrow> None
            | Some m \<Rightarrow> if m < 1 then Some (JBool True) else None)"
      "distinct (map fst r)"
      "set (map fst r) \<subseteq> {''images'', ''text_files'', ''refresh_worker''}"
    using success_response_shape[of E "JStr jid" images text_files w3] by blast
  have "handle_history E w2 (JStr jid) payload prompt_id resp_json = (Inr (JObj r), w')"
    using assms(4,5,6) r by (simp add: handle_history_def harvest_def)
  then have "handler E w event = Some (Inr (JObj r), w')"
    using handler_after_poll[OF assms(1,2,3,7)] by (simp add: top_level_def)
  with shape show ?thesis by blast
qed

theorem success_response_keys_witness:
  "\<exists>r w'. handler happy_env happy_world (job_event ''custom'' plain_payload) = Some (Inr (JObj r), w')
     \<and> map_of r ''images'' = Some (JArr [JStr ''QUJD''])
     \<and> map_of r ''text_files'' =
          Some (JArr [text_entry ''aaaaaaaa-aaaa-4aaa-8aaa-aaaaaaaaaaaa_00001_.txt'' ''a cat''])
     \<and> map_of r ''refresh_worker'' = Some (JBool True)
     \<and> distinct (map fst r)
     \<and> set (map fst r) \<subseteq> {''images'', ''text_files'', ''refresh_worker''}"
proof -
  let ?ev = "job_event ''custom'' plain_payload"
  have h1: "py_getitem ?ev ''id'' = Inr (JStr ''job1'')"
    by code_simp
  have h2: "submission happy_env happy_world (JStr ''job1'') ?ev
          = (Continue (plain_injected, JStr ''p1''), queued happy_world)"
    by code_simp
  have h3: "poll happy_env (JStr ''job1'') (JStr ''p1'') 0 (queued happy_world)
          = Some (Inr happy_record, polled happy_world)"
    by code_simp
  have h4: "history_status happy_record (JStr ''p1'') = Inr success_status"
    by code_simp
  have h5: "job_succeeded success_status = Inr True"
    by code_simp
  have "fst (collect_artifacts happy_env (polled happy_world) (JStr ''job1'') plain_injected
               (JStr ''p1'') happy_record)
          = Inr ([JStr ''QUJD''],
                 [text_entry ''aaaaaaaa-aaaa-4aaa-8aaa-aaaaaaaaaaaa_00001_.txt'' ''a cat''])"
    by (simp add: collect_artifacts_def happy_record_def job_record_def success_status_def
          bind_exn_def get_output_files_def node_output_files_def harvest_output_file_def
          harvest_output_image_def polled_def queued_def happy_world_def empty_world_def
          picture_def readable_def say_def os_remove_def VOLUME_MOUNT_PATH_def happy_env_def
          base_env_def size_line_def unique_prefix_of_def plain_injected_def probe_node_def
          scan_for_text_files_def scan_dirs_def scan_directory_def listdir_def scan_file_def
          is_text_name_def text_extensions_def lower_char_def read_text_def text_entry_def
          Let_def suffix_to_prefix)
  then have h6: "collect_artifacts happy_env (polled happy_world) (JStr ''job1'') plain_injected
               (JStr ''p1'') happy_record
          = (Inr ([JStr ''QUJD''],
                 [text_entry ''aaaaaaaa-aaaa-4aaa-8aaa-aaaaaaaaaaaa_00001_.txt'' ''a cat'']),
             snd (collect_artifacts happy_env (polled happy_world) (JStr ''job1'') plain_injected
               (JStr ''p1'') happy_record))"
    by (rule pair_from_fst)
  have h7: "CHR 0x00 \<notin> set ''job1''"
    by simp
  have mem: "memory_available happy_env (Suc 0) = Some 0.75"
    by (simp add: happy_env_def base_env_def)
  show ?thesis
    using success_response_keys[OF h1 h2 h3 h4 h5 h6 h7] by (simp add: mem)
qed

subsection \<open>The resource guard\<close>

lemma handler_guard_rejects:
  assumes "py_getitem event ''id'' = Inr (JStr jid)"
    and "CHR 0x00 \<notin> set jid"
    and "resource_guard E = Inl e"
  shows "handler E w event =
         Some (Inr (error_response E e),
               say ERROR (''An exception was raised: '' @ exc_str E e) [JStr jid] w)"
  using assms by (simp add: handler_def handler_try_def submission_def top_level_def)

lemma format_exc_contains:
  assumes "sublist s (exc_str E e)"
  shows "sublist s (format_exc E e)"
proof (cases "exc_str E e = []")
  case True
  with assms have "s = []" by simp
  then show ?thesis by simp
next
  case False
  have "format_exc E e =
      (''Traceback (most recent call last):'' @ [CHR 0x0A] @ stack E e @ exc_name e @ '': '')
        @ exc_str E e @ [CHR 0x0A]"
    using False by (simp add: format_exc_def)
  moreover from assms obtain ps ss where "exc_str E e = ps @ s @ ss"
    by (auto simp: sublist_def)
  ultimately have "format_exc E e =
      ((''Traceback (most recent call last):'' @ [CHR 0x0A] @ stack E e @ exc_name e @ '': '') @ ps)
        @ s @ (ss @ [CHR 0x0A])"
    by simp
  then show ?thesis
    unfolding sublist_def by blast
qed

lemma posted_say [simp]: "posted (say lvl msg args w) = posted w"
  by (simp add: say_def)

text \<open>
  Claim C5. The job has an id the environment accepts: a string without a NUL
  character. When the available memory is known and below 0.5 GB, the handler returns an
  error response whose text has the memory message, and nothing has been posted to the
  service; likewise, with the disk message, when the free disk is known and below
  500 MB (and the memory check, which comes first, has passed). A figure that is unknown
  blocks nothing: when each figure is unknown or sufficient, the guard adds nothing and
  the handler goes on with the validation and the submission.
\<close>

theorem resource_guard_policy:
  assumes "py_getitem event ''id'' = Inr (JStr jid)"
    and "CHR 0x00 \<notin> set jid"
  shows "(\<forall>m. memory_available E 0 = Some m \<longrightarrow> m < 0.5 \<longrightarrow>
            (\<exists>text w'. handler E w event =
                 Some (Inr (JObj [(''error'', JStr text), (''refresh_worker'', JBool True)]), w')
               \<and> sublist ''Insufficient available container memory'' text
               \<and> posted w' = posted w))
       \<and> (\<forall>free. disk_free_bytes E = Some free \<longrightarrow> free < 500 * 1024 * 1024 \<longrightarrow>
            (memory_available E 0 = None \<or> (\<exists>m. memory_available E 0 = Some m \<and> 0.5 \<le> m)) \<longrightarrow>
            (\<exists>text w'. handler E w event =
                 Some (Inr (JObj [(''error'', JStr text), (''refresh_worker'', JBool True)]), w')
               \<and> sublist ''Insufficient free container disk space'' text
               \<and> posted w' = posted w))
       \<and> ((memory_available E 0 = None \<or> (\<exists>m. memory_available E 0 = Some m \<and> 0.5 \<le> m)) \<longrightarrow>
          (disk_free_bytes E = None \<or> (\<exists>free. disk_free_bytes E = Some free \<and> 500 * 1024 * 1024 \<le> free)) \<longrightarrow>
            submission E w (JStr jid) event = accept_job E w (JStr jid) event)"
proof (intro conjI allI impI)
  fix m assume m: "memory_available E 0 = Some m" "m < 0.5"
  let ?msg = "''Insufficient available container memory: '' @ fmt_2f E m @
                '' GB available (minimum 0.5 GB required)''"
  have g: "resource_guard E = Inl (PyException ?msg)"
    using m by (simp add: resource_guard_def)
  have "sublist ''Insufficient available container memory'' (exc_str E (PyException ?msg))"
    by (simp add: sublist_def) (rule exI[of _ "[]"], simp)
  then have "sublist ''Insufficient available container memory'' (format_exc E (PyException ?msg))"
    by (rule format_exc_contains)
  then show "\<exists>text w'. handler E w event =
                 Some (Inr (JObj [(''error'', JStr text), (''refresh_worker'', JBool True)]), w')
               \<and> sublist ''Insufficient available container memory'' text
               \<and> posted w' = posted w"
    using handler_guard_rejects[OF assms g, of w] by (simp add: error_response_def)
next
  fix free
  assume d: "disk_free_bytes E = Some free" "free < 500 * 1024 * 1024"
    and mem: "memory_available E 0 = None \<or> (\<exists>m. memory_available E 0 = Some m \<and> 0.5 \<le> m)"
  let ?msg = "''Insufficient free container disk space: '' @
                fmt_2f E (real_of_int free / 1024 ^ 3) @
                '' GB available (minimum 0.5 GB required)''"
  have "free_disk_check E = Inl (PyException ?msg)"
    using d by (simp add: free_disk_check_def DISK_MIN_FREE_BYTES_def)
  then have g: "resource_guard E = Inl (PyException ?msg)"
    using mem by (auto simp: resource_guard_def)
  have "sublist ''Insufficient free container disk space'' (exc_str E (PyException ?msg))"
    by (simp add: sublist_def) (rule exI[of _ "[]"], simp)
  then have "sublist ''Insufficient free container disk space'' (format_exc E (PyException ?msg))"
    by (rule format_exc_contains)
  then show "\<exists>text w'. handler E w event =
                 Some (Inr (JObj [(''error'', JStr text), (''refresh_worker'', JBool True)]), w')
               \<and> sublist ''Insufficient free container disk space'' text
               \<and> posted w' = posted w"
    using handler_guard_rejects[OF assms g, of w] by (simp add: error_response_def)
next
  assume mem: "memory_available E 0 = None \<or> (\<exists>m. memory_available E 0 = Some m \<and> 0.5 \<le> m)"
    and d: "disk_free_bytes E = None \<or> (\<exists>free. disk_free_bytes E = Some free \<and> 500 * 1024 * 1024 \<le> free)"
  have "free_disk_check E = Inr ()"
    using d by (auto simp: free_disk_check_def DISK_MIN_FREE_BYTES_def)
  then have "resource_guard E = Inr ()"
    using mem by (auto simp: resource_guard_def)
  then show "submission E w (JStr jid) event = accept_job E w (JStr jid) event"
    by (simp add: submission_def)
qed

theorem resource_guard_policy_witness:
  "(\<exists>text w'. handler low_memory_env empty_world (job_event ''custom'' plain_payload) =
        Some (Inr (JObj [(''error'', JStr text), (''refresh_worker'', JBool True)]), w')
      \<and> sublist ''Insufficient available container memory'' text
      \<and> posted w' = posted empty_world)
   \<and> (\<exists>text w'. handler low_disk_env empty_world (job_event ''custom'' plain_payload) =
        Some (Inr (JObj [(''error'', JStr text), (''refresh_worker'', JBool True)]), w')
      \<and> sublist ''Insufficient free container disk space'' text
      \<and> posted w' = posted empty_world)
   \<and> submission blind_env empty_world (JStr ''job1'') (job_event ''custom'' plain_payload) =
       accept_job blind_env empty_world (JStr ''job1'') (job_event ''custom'' plain_payload)"
proof -
  let ?ev = "job_event ''custom'' plain_payload"
  have id: "py_getitem ?ev ''id'' = Inr (JStr ''job1'')"
    by (simp add: job_event_def)
  have m: "memory_available low_memory_env 0 = Some 0.25" "(0.25::real) < 0.5"
    by (simp_all add: low_memory_env_def)
  have d: "disk_free_bytes low_disk_env = Some 1000000" "(1000000::int) < 500 * 1024 * 1024"
    "memory_available low_disk_env 0 = Some 8" "(0.5::real) \<le> 8"
    by (simp_all add: low_disk_env_def base_env_def)
  have b: "memory_available blind_env 0 = None" "disk_free_bytes blind_env = None"
    by (simp_all add: blind_env_def)
  have nul: "CHR 0x00 \<notin> set ''job1''"
    by simp
  show ?thesis
    using resource_guard_policy[OF id nul, of low_memory_env empty_world] m
      resource_guard_policy[OF id nul, of low_disk_env empty_world] d
      resource_guard_policy[OF id nul, of blind_env empty_world] b
    by blast
qed

subsection \<open>An execution error of the service\<close>

lemma failure_messages_skip:
  assumes "list_all other_message before"
  shows "failure_messages E w job_id prompt_id resp_json (before @ rest) =
         failure_messages E w job_id prompt_id resp_json rest"
  using assms
  by (induction before) (auto simp: other_message_def split: sum.splits)

lemma py_getitem_in:
  assumes "py_getitem v k = Inr x"
  shows "py_in k v = Inr True"
  using assms
  by (cases v) (auto split: option.splits dest: map_of_SomeD intro: rev_image_eqI)

text \<open>
  Claim C6. When the job, under an id the environment accepts (a string without a NUL
  character), has failed and the first \<^verbatim>\<open>execution_error\<close> message of the
  history record (after messages of other kinds only) carries a \<^verbatim>\<open>node_type\<close> and
  an \<^verbatim>\<open>exception_message\<close>, the handler returns an error response with
  \<^verbatim>\<open>refresh_worker\<close> true whose text contains both.
\<close>

theorem execution_error_names_node:
  assumes "py_getitem event ''id'' = Inr (JStr jid)"
    and "submission E w (JStr jid) event = (Continue (payload, prompt_id), w1)"
    and "poll E (JStr jid) prompt_id 0 w1 = Some (Inr resp_json, w2)"
    and "history_status resp_json prompt_id = Inr status"
    and "job_succeeded status = Inr False"
    and "bind_exn (py_getitem status ''messages'') py_iter = Inr (before @ message # rest)"
    and "list_all other_message before"
    and "py_unpack2 message = Inr (JStr ''execution_error'', v)"
    and "py_getitem v ''node_type'' = Inr node_type"
    and "py_getitem v ''exception_message'' = Inr exception_message"
    and "CHR 0x00 \<notin> set jid"
  shows "\<exists>text w'. handler E w event =
            Some (Inr (JObj [(''error'', JStr text), (''refresh_worker'', JBool True)]), w')
          \<and> sublist (py_str E node_type) text
          \<and> sublist (py_str E exception_message) text"
proof -
  define msg where "msg = py_str E node_type @ '': '' @ py_str E exception_message"
  have both: "has_node_and_message v = Inr True"
    using py_getitem_in[OF assms(9)] py_getitem_in[OF assms(10)]
    by (simp add: has_node_and_message_def bind_exn_def)
  have one: "failure_messages E w2 (JStr jid) prompt_id resp_json (message # rest)
          = (Inl (RuntimeError msg), w2)"
    by (simp add: assms(8,9,10) both bind_exn_def msg_def)
  have all: "failure_messages E w2 (JStr jid) prompt_id resp_json (before @ message # rest)
          = (Inl (RuntimeError msg), w2)"
    by (simp only: failure_messages_skip[OF assms(7)] one)
  have rep: "report_failure E w2 (JStr jid) prompt_id resp_json status
          = (Inl (RuntimeError msg), w2)"
    unfolding report_failure_def assms(6) by (simp only: sum.case all)
  have hh: "handle_history E w2 (JStr jid) payload prompt_id resp_json
          = (Inl (RuntimeError msg), w2)"
    by (simp add: handle_history_def assms(4) assms(5) rep)
  have h: "handler E w event =
      Some (Inr (error_response E (RuntimeError msg)),
            say ERROR (''An exception was raised: '' @ exc_str E (RuntimeError msg)) [JStr jid] w2)"
    unfolding handler_after_poll[OF assms(1,2,3,11)] hh top_level_def
    by (simp only: prod.case sum.case)
  have "sublist (py_str E node_type) (exc_str E (RuntimeError msg))"
    unfolding msg_def exc_str.simps by (rule sublist_append_rightI)
  then have n: "sublist (py_str E node_type) (format_exc E (RuntimeError msg))"
    by (rule format_exc_contains)
  have "msg = (py_str E node_type @ '': '') @ py_str E exception_message"
    by (simp add: msg_def)
  then have "sublist (py_str E exception_message) (exc_str E (RuntimeError msg))"
    unfolding exc_str.simps by (simp only: sublist_append_leftI)
  then have m: "sublist (py_str E exception_message) (format_exc E (RuntimeError msg))"
    by (rule format_exc_contains)
  show ?thesis
    unfolding h error_response_def using n m by blast
qed

theorem execution_error_names_node_witness:
  "\<exists>text w'. handler oom_env empty_world (job_event ''custom'' plain_payload) =
        Some (Inr (JObj [(''error'', JStr text), (''refresh_worker'', JBool True)]), w')
     \<and> sublist ''KSampler'' text \<and> sublist ''CUDA OOM'' text"
proof -
  let ?ev = "job_event ''custom'' plain_payload"
  let ?history = "job_record (failed_status oom_messages) (JObj [])"
  let ?v = "JObj [(''node_type'', JStr ''KSampler''), (''exception_message'', JStr ''CUDA OOM'')]"
  have h1: "py_getitem ?ev ''id'' = Inr (JStr ''job1'')"
    by (simp add: job_event_def)
  have h2: "submission oom_env empty_world (JStr ''job1'') ?ev
          = (Continue (plain_injected, JStr ''p1''), queued empty_world)"
    by code_simp
  have h3: "poll oom_env (JStr ''job1'') (JStr ''p1'') 0 (queued empty_world)
          = Some (Inr ?history, polled empty_world)"
    by code_simp
  have h4: "history_status ?history (JStr ''p1'') = Inr (failed_status oom_messages)"
    by (simp add: history_status_def job_record_def bind_exn_def)
  have h5: "job_succeeded (failed_status oom_messages) = Inr False"
    by (simp add: job_succeeded_def failed_status_def bind_exn_def)
  have h6: "bind_exn (py_getitem (failed_status oom_messages) ''messages'') py_iter =
      Inr ([JArr [JStr ''execution_start'', JObj [(''prompt_id'', JStr ''p1'')]]] @
           JArr [JStr ''execution_error'', ?v] # [])"
    by (simp add: failed_status_def oom_messages_def bind_exn_def)
  have h7: "list_all other_message [JArr [JStr ''execution_start'', JObj [(''prompt_id'', JStr ''p1'')]]]"
    by (simp add: other_message_def py_unpack2_def bind_exn_def)
  have h8: "py_unpack2 (JArr [JStr ''execution_error'', ?v]) = Inr (JStr ''execution_error'', ?v)"
    by (simp add: py_unpack2_def bind_exn_def)
  have h9: "py_getitem ?v ''node_type'' = Inr (JStr ''KSampler'')"
    by simp
  have h10: "py_getitem ?v ''exception_message'' = Inr (JStr ''CUDA OOM'')"
    by simp
  have h11: "CHR 0x00 \<notin> set ''job1''"
    by simp
  show ?thesis
    using execution_error_names_node[OF h1 h2 h3 h4 h5 h6 h7 h8 h9 h10 h11] by simp
qed

subsection \<open>The validated job\<close>

lemma validated_job_as:
  assumes "validated_as E event workflow_name payload"
  shows "validated_job E event =
         Continue (if workflow_name = JStr ''default'' then JStr ''txt2img'' else workflow_name,
                   payload)"
proof -
  from assms obtain raw v job where
    raw: "py_getitem event ''input'' = Inr raw" and v: "validate E raw = Inr v"
    and ok: "py_in ''errors'' v = Inr False"
    and job: "py_getitem v ''validated_input'' = Inr job"
    and wf: "py_getitem job ''workflow'' = Inr workflow_name"
    and pl: "py_getitem job ''payload'' = Inr payload"
    by (auto simp: validated_as_def bind_exn_def split: sum.splits)
  show ?thesis
    by (simp add: validated_job_def raise_or_def raw v ok job wf pl)
qed

subsection \<open>What a run asks of the outside\<close>

text \<open>
  Nothing after the submission posts to the service or opens a template: the poll loop,
  the harvest and the failure report leave both lists as they are.
\<close>

lemma requests_say [simp]: "requests (say lvl msg args w) = requests w"
  by (simp add: requests_def say_def)

lemma requests_logged [simp]: "requests (w\<lparr>logged := l\<rparr>) = requests w"
  by (simp add: requests_def)

lemma requests_os_remove: "os_remove w p = Inr w' \<Longrightarrow> requests w' = requests w"
  by (auto simp: os_remove_def requests_def split: option.splits if_splits)

lemma requests_harvest_output_image [simp]:
  "requests (snd (harvest_output_image E job_id p s)) = requests (snd s)"
  by (cases s)
     (auto simp: harvest_output_image_def Let_def dest: requests_os_remove
           split: option.splits sum.splits prod.splits)

lemma requests_remove_temp [simp]: "requests (remove_temp E job_id p w) = requests w"
  by (auto simp: remove_temp_def Let_def dest: requests_os_remove split: sum.splits)

lemma requests_harvest_temp_image [simp]:
  "requests (harvest_temp_image E job_id filename w) = requests w"
  by (simp add: harvest_temp_image_def)

lemma requests_harvest_output_file [simp]:
  "requests (snd (harvest_output_file E job_id output_file s)) = requests (snd s)"
  by (simp add: harvest_output_file_def split: sum.splits prod.splits)

lemma requests_harvest_images [simp]:
  "requests (snd (harvest_images E job_id output_files s)) = requests (snd s)"
proof (induction output_files arbitrary: s)
  case Nil
  show ?case by simp
next
  case (Cons output_file rest)
  obtain r w' where step: "harvest_output_file E job_id output_file s = (r, w')"
    by (cases "harvest_output_file E job_id output_file s")
  have w': "requests w' = requests (snd s)"
    using requests_harvest_output_file[of E job_id output_file s] step by simp
  show ?case
    using Cons.IH w' by (cases r) (simp_all add: step)
qed

lemma requests_scan_error [simp]: "requests (scan_error E job_id p e w) = requests w"
  by (simp add: scan_error_def)

lemma requests_read_binary [simp]:
  "requests (snd (read_binary E job_id p filename s)) = requests (snd s)"
  by (cases s)
     (auto simp: read_binary_def Let_def dest: requests_os_remove
           split: option.splits sum.splits)

lemma requests_read_text [simp]:
  "requests (snd (read_text E job_id p filename s)) = requests (snd s)"
proof (cases s)
  case (Pair text_files w)
  show ?thesis
  proof (cases "map_of (disk w) p")
    case None
    then show ?thesis by (simp add: read_text_def Pair)
  next
    case (Some f)
    show ?thesis
    proof (cases "f_text f")
      case (Inl e)
      then show ?thesis by (simp add: read_text_def Pair Some)
    next
      case (Inr content_text)
      let ?w1 = "say INFO (''Found and processed additional text file: '' @ p) [job_id] w"
      show ?thesis
      proof (cases "os_remove ?w1 p")
        case (Inl e)
        then show ?thesis
          using Inr by (simp add: read_text_def Pair Some Let_def)
      next
        case r: (Inr w2)
        then have "requests w2 = requests w"
          using requests_os_remove[of ?w1 p w2] by simp
        then show ?thesis
          using Inr r by (simp add: read_text_def Pair Some Let_def)
      qed
    qed
  qed
qed

lemma requests_scan_file [simp]:
  "requests (snd (snd (scan_file E job_id unique_prefix scan_dir filename s))) = requests (snd s)"
  by (simp add: scan_file_def split: json.splits)

lemma requests_scan_names [simp]:
  "requests (snd (snd (scan_names E job_id unique_prefix scan_dir names s))) = requests (snd s)"
proof (induction names arbitrary: s)
  case Nil
  show ?case by simp
next
  case (Cons filename rest)
  obtain r s' where step: "scan_file E job_id unique_prefix scan_dir filename s = (r, s')"
    by (cases "scan_file E job_id unique_prefix scan_dir filename s")
  have s': "requests (snd s') = requests (snd s)"
    using requests_scan_file[of E job_id unique_prefix scan_dir filename s] step by simp
  show ?case
    using Cons.IH s' by (cases r) (simp_all add: step)
qed

lemma requests_scan_directory [simp]:
  "requests (snd (scan_directory E job_id unique_prefix scan_dir s)) = requests (snd s)"
proof (cases "dir_status E scan_dir")
  case Missing
  then show ?thesis by (simp add: scan_directory_def)
next
  case (Unlistable e)
  then show ?thesis by (simp add: scan_directory_def scan_warning_def)
next
  case Listable
  obtain r s' where step:
    "scan_names E job_id unique_prefix scan_dir (listdir (snd s) scan_dir) s = (r, s')"
    by (cases "scan_names E job_id unique_prefix scan_dir (listdir (snd s) scan_dir) s")
  have s': "requests (snd s') = requests (snd s)"
    using requests_scan_names[of E job_id unique_prefix scan_dir "listdir (snd s) scan_dir" s] step
    by simp
  show ?thesis
    using s' Listable by (cases r) (simp_all add: scan_directory_def step scan_warning_def)
qed

lemma requests_scan_for_text_files [simp]:
  "requests (snd (scan_for_text_files E job_id unique_prefix w)) = requests w"
  by (simp add: scan_for_text_files_def scan_dirs_def)

lemma requests_success_response [simp]:
  "requests (snd (success_response E job_id images text_files w)) = requests w"
  by (simp add: success_response_def Let_def split: option.splits)

lemma requests_collect_artifacts [simp]:
  "requests (snd (collect_artifacts E w job_id payload prompt_id resp_json)) = requests w"
proof -
  have img: "requests w2 = requests w1"
    if "harvest_images E job_id output_files ([], w1) = (r, w2)" for output_files w1 r w2
    using requests_harvest_images[of E job_id output_files "([], w1)"] that by simp
  have scan: "requests w3 = requests w2"
    if "scan_for_text_files E job_id unique_prefix w2 = (text_files, w3)"
    for unique_prefix w2 text_files w3
    using requests_scan_for_text_files[of E job_id unique_prefix w2] that by simp
  show ?thesis
    by (auto simp: collect_artifacts_def Let_def dest!: img scan
             split: sum.splits prod.splits)
qed

lemma requests_harvest [simp]:
  "requests (snd (harvest E w job_id payload prompt_id resp_json)) = requests w"
proof -
  obtain r w' where c: "collect_artifacts E w job_id payload prompt_id resp_json = (r, w')"
    by (cases "collect_artifacts E w job_id payload prompt_id resp_json")
  have w': "requests w' = requests w"
    using requests_collect_artifacts[of E w job_id payload prompt_id resp_json] c by simp
  show ?thesis
  proof (cases r)
    case (Inl e)
    then show ?thesis using w' by (simp add: harvest_def c)
  next
    case (Inr found)
    obtain images text_files where found: "found = (images, text_files)"
      by (cases found)
    obtain response w'' where
      s: "success_response E job_id images text_files w' = (response, w'')"
      by (cases "success_response E job_id images text_files w'")
    have "requests w'' = requests w'"
      using requests_success_response[of E job_id images text_files w'] s by simp
    then show ?thesis
      using w' by (simp add: harvest_def c Inr found s)
  qed
qed

lemma requests_failure_messages [simp]:
  "requests (snd (failure_messages E w job_id prompt_id resp_json messages)) = requests w"
  by (induction messages) (auto split: sum.splits prod.splits bool.splits)

lemma requests_report_failure [simp]:
  "requests (snd (report_failure E w job_id prompt_id resp_json status)) = requests w"
  by (simp add: report_failure_def split: sum.splits)

lemma requests_handle_history [simp]:
  "requests (snd (handle_history E w job_id payload prompt_id resp_json)) = requests w"
  by (simp add: handle_history_def split: sum.splits bool.splits)

lemma requests_top_level [simp]:
  "requests (snd (top_level E job_id r)) = requests (snd r)"
  by (cases r) (simp add: top_level_def split: sum.splits)

lemma requests_poll:
  "poll E job_id prompt_id retries w = Some y \<Longrightarrow> requests (snd y) = requests w"
proof (induction rule: poll.raw_induct[rotated -1, consumes 1])
  case (1 poll' E job_id prompt_id retries w y)
  define w1 where "w1 = (if retries = 0 \<or> retries mod 15 = 0
       then w\<lparr>logged := logged w @ [status_line E job_id prompt_id]\<rparr> else w)"
  have w1: "requests w1 = requests w"
    by (simp add: w1_def)
  have again: "requests (snd y') = requests w"
    if "poll' E job_id prompt_id (retries + 1) w1 = Some y'" for y'
    using 1(1)[OF that] w1 by simp
  note body = 1(2)[unfolded Let_def, folded w1_def]
  show ?case
  proof (cases "send_get_request E (''history/'' @ py_str E prompt_id) retries")
    case (Inl e)
    then show ?thesis using body w1 by auto
  next
    case r: (Inr r)
    show ?thesis
    proof (cases "json_body r")
      case (Inl e)
      then show ?thesis using body w1 r by auto
    next
      case j: (Inr resp_json)
      show ?thesis
      proof (cases "status_code r = 200")
        case False
        then show ?thesis using body r j again by simp
      next
        case True
        show ?thesis
        proof (cases "py_len resp_json")
          case (Inl e)
          then show ?thesis using body w1 r j True by auto
        next
          case (Inr n)
          then show ?thesis using body w1 r j True again by (cases "n = 0") auto
        qed
      qed
    qed
  qed
qed

lemma requests_queue_prompt:
  "requests (snd (queue_prompt E w job_id payload)) =
     (posted w @ [JObj [(''prompt'', payload)]], opened w)"
  by (auto simp: queue_prompt_def Let_def requests_def say_def split: sum.splits)

lemma requests_handler:
  assumes "py_getitem event ''id'' = Inr (JStr jid)"
    and "CHR 0x00 \<notin> set jid"
    and "handler E w event = Some (r, w')"
  shows "requests w' = requests (snd (submission E w (JStr jid) event))"
proof -
  obtain out w1 where s: "submission E w (JStr jid) event = (out, w1)"
    by (cases "submission E w (JStr jid) event")
  from assms obtain x where t: "handler_try E w (JStr jid) event = Some x"
    and x: "top_level E (JStr jid) x = (r, w')"
    by (auto simp: handler_enters_try)
  have w': "requests w' = requests (snd x)"
    using requests_top_level[of E "JStr jid" x] x by simp
  have "requests (snd x) = requests w1"
  proof (cases out)
    case (Raise e)
    then show ?thesis using t s by (auto simp: handler_try_def)
  next
    case (Return v)
    then show ?thesis using t s by (auto simp: handler_try_def)
  next
    case (Continue pp)
    obtain payload prompt_id where pp: "pp = (payload, prompt_id)" by (cases pp)
    from t s Continue pp obtain y where
      p: "poll E (JStr jid) prompt_id 0 w1 = Some y"
      by (auto simp: handler_try_def split: option.splits)
    have y: "requests (snd y) = requests w1"
      by (rule requests_poll[OF p])
    obtain res w2 where yy: "y = (res, w2)" by (cases y)
    show ?thesis
    proof (cases res)
      case (Inl e)
      then show ?thesis using t s Continue pp p yy y by (simp add: handler_try_def)
    next
      case (Inr resp_json)
      have "x = handle_history E w2 (JStr jid) payload prompt_id resp_json"
        using t s Continue pp p yy Inr by (simp add: handler_try_def)
      then show ?thesis
        using y yy by simp
    qed
  qed
  then show ?thesis using w' s by simp
qed

subsection \<open>The workflow named default\<close>

lemma requests_submission_default:
  assumes "validated_as E event (JStr ''default'') payload"
    and "resource_guard E = Inr ()"
  shows "requests (snd (submission E w job_id event)) =
           (posted w @ txt2img_request E payload, opened w @ [''/workflows/txt2img.json''])"
proof -
  let ?w1 = "say INFO (''Workflow: '' @ py_str E (JStr ''txt2img'')) [job_id] w"
  let ?w2 = "?w1\<lparr>opened := opened ?w1 @ [''/workflows/txt2img.json'']\<rparr>"
  let ?built = "bind_exn (load_template E ''/workflows/txt2img.json'')
                  (\<lambda>workflow. get_txt2img_payload workflow payload)"
  have v: "validated_job E event = Continue (JStr ''txt2img'', payload)"
    using validated_job_as[OF assms(1)] by simp
  have g: "get_workflow_payload E ?w1 (JStr ''txt2img'') payload = (?built, ?w2)"
    by (simp add: get_workflow_payload_def workflow_path_def)
  have w2: "requests ?w2 = (posted w, opened w @ [''/workflows/txt2img.json''])"
    by (simp add: requests_def say_def)
  show ?thesis
  proof (cases ?built)
    case (Inl e)
    have "build_payload E w job_id (JStr ''txt2img'') payload =
            (Inl e, say ERROR (''Unable to load workflow payload for: '' @
                               py_str E (JStr ''txt2img'')) [job_id] ?w2)"
      using g Inl by (simp add: build_payload_def load_payload_def)
    then show ?thesis
      using w2 Inl by (simp add: submission_def assms(2) accept_job_def v txt2img_request_def)
  next
    case (Inr built)
    have b: "build_payload E w job_id (JStr ''txt2img'') payload =
               (create_unique_filename_prefix E built, ?w2)"
      using g Inr by (simp add: build_payload_def load_payload_def)
    show ?thesis
    proof (cases "create_unique_filename_prefix E built")
      case (Inl e)
      then show ?thesis
        using w2 b \<open>?built = Inr built\<close>
        by (simp add: submission_def assms(2) accept_job_def v txt2img_request_def
              submitted_def)
    next
      case injected: (Inr payload')
      obtain r w3 where q: "queue_prompt E ?w2 job_id payload' = (r, w3)"
        by (cases "queue_prompt E ?w2 job_id payload'")
      have "requests w3 = (posted w @ [JObj [(''prompt'', payload')]],
                           opened w @ [''/workflows/txt2img.json''])"
        using requests_queue_prompt[of E ?w2 job_id payload'] q by (simp add: say_def)
      then show ?thesis
        using q b \<open>?built = Inr built\<close> injected
        by (cases r)
           (simp_all add: submission_def assms(2) accept_job_def v txt2img_request_def
              submitted_def)
    qed
  qed
qed

text \<open>
  Claim C10. A job whose validated workflow name is \<^verbatim>\<open>default\<close> gets from the
  handler what the same job gets under the name \<^verbatim>\<open>txt2img\<close>, result and effects:
  the name is replaced before anything else looks at it, and the builder then opens
  \<^verbatim>\<open>/workflows/txt2img.json\<close> and applies the txt2img table. Once the resource guard
  has passed, the run up to the submission opens that template and no other file and
  posts the template with the txt2img parameters of the job in its slots (and the
  prefixes injected), and nothing else; so does every run of the handler that returns,
  under an id the environment accepts (a string without a NUL character).
\<close>

theorem default_is_txt2img:
  assumes "py_getitem event1 ''id'' = py_getitem event2 ''id''"
    and "validated_as E event1 (JStr ''default'') payload"
    and "validated_as E event2 (JStr ''txt2img'') payload"
  shows "handler E w event1 = handler E w event2
       \<and> validated_job E event1 = Continue (JStr ''txt2img'', payload)
       \<and> get_workflow_payload E w (JStr ''txt2img'') payload =
           (bind_exn (load_template E ''/workflows/txt2img.json'')
              (\<lambda>workflow. get_txt2img_payload workflow payload),
            w\<lparr>opened := opened w @ [''/workflows/txt2img.json'']\<rparr>)
       \<and> (resource_guard E = Inr () \<longrightarrow>
            (\<forall>job_id.
               opened (snd (submission E w job_id event1))
                 = opened w @ [''/workflows/txt2img.json'']
               \<and> posted (snd (submission E w job_id event1))
                 = posted w @ txt2img_request E payload)
            \<and> (\<forall>jid r w'.
                 py_getitem event1 ''id'' = Inr (JStr jid) \<longrightarrow> CHR 0x00 \<notin> set jid \<longrightarrow>
                 handler E w event1 = Some (r, w') \<longrightarrow>
                   opened w' = opened w @ [''/workflows/txt2img.json'']
                   \<and> posted w' = posted w @ txt2img_request E payload))"
proof -
  have v1: "validated_job E event1 = Continue (JStr ''txt2img'', payload)"
    using validated_job_as[OF assms(2)] by simp
  have v2: "validated_job E event2 = Continue (JStr ''txt2img'', payload)"
    using validated_job_as[OF assms(3)] by simp
  have "accept_job E w job_id event1 = accept_job E w job_id event2" for job_id
    by (simp only: accept_job_def v1 v2)
  then have "handler_try E w job_id event1 = handler_try E w job_id event2" for job_id
    by (simp only: handler_try_def submission_def)
  then have same: "handler E w event1 = handler E w event2"
    by (simp only: handler_def assms(1))
  have builder: "get_workflow_payload E w (JStr ''txt2img'') payload =
           (bind_exn (load_template E ''/workflows/txt2img.json'')
              (\<lambda>workflow. get_txt2img_payload workflow payload),
            w\<lparr>opened := opened w @ [''/workflows/txt2img.json'']\<rparr>)"
    by (simp add: get_workflow_payload_def workflow_path_def)
  have sub: "requests (snd (submission E w job_id event1)) =
           (posted w @ txt2img_request E payload, opened w @ [''/workflows/txt2img.json''])"
    if "resource_guard E = Inr ()" for job_id
    by (rule requests_submission_default[OF assms(2) that])
  have run: "requests w' =
           (posted w @ txt2img_request E payload, opened w @ [''/workflows/txt2img.json''])"
    if "resource_guard E = Inr ()" and "py_getitem event1 ''id'' = Inr (JStr jid)"
      and "CHR 0x00 \<notin> set jid" and "handler E w event1 = Some (r, w')" for jid r w'
    using requests_handler[OF that(2,3,4)] sub[OF that(1)] by simp
  show ?thesis
    using same v1 builder sub run by (simp add: requests_def)
qed

theorem default_is_txt2img_witness:
  "handler txt2img_env empty_world (job_event ''default'' txt2img_params)
     = handler txt2img_env empty_world (job_event ''txt2img'' txt2img_params)
   \<and> handler txt2img_env empty_world (job_event ''default'' txt2img_params) \<noteq> None
   \<and> opened (snd (the (handler txt2img_env empty_world
                          (job_event ''default'' txt2img_params))))
       = [''/workflows/txt2img.json'']
   \<and> posted (snd (the (handler txt2img_env empty_world
                          (job_event ''default'' txt2img_params))))
       = [JObj [(''prompt'', txt2img_injected)]]
   \<and> opened (snd (submission txt2img_env empty_world (JStr ''job1'')
                     (job_event ''default'' txt2img_params)))
       = [''/workflows/txt2img.json'']
   \<and> posted (snd (submission txt2img_env empty_world (JStr ''job1'')
                     (job_event ''default'' txt2img_params)))
       = [JObj [(''prompt'', txt2img_injected)]]"
proof -
  let ?ev = "job_event ''default'' txt2img_params"
  have ids: "py_getitem ?ev ''id'' = py_getitem (job_event ''txt2img'' txt2img_params) ''id''"
    by (simp add: job_event_def)
  have id: "py_getitem ?ev ''id'' = Inr (JStr ''job1'')"
    by (simp add: job_event_def)
  have nul: "CHR 0x00 \<notin> set ''job1''"
    by simp
  have a: "validated_as txt2img_env ?ev (JStr ''default'') txt2img_params"
    by (simp add: validated_as_def job_event_def txt2img_env_def base_env_def bind_exn_def)
  have b: "validated_as txt2img_env (job_event ''txt2img'' txt2img_params)
             (JStr ''txt2img'') txt2img_params"
    by (simp add: validated_as_def job_event_def txt2img_env_def base_env_def bind_exn_def)
  have g: "resource_guard txt2img_env = Inr ()"
    by (simp add: resource_guard_def free_disk_check_def txt2img_env_def base_env_def
          DISK_MIN_FREE_BYTES_def)
  have req: "txt2img_request txt2img_env txt2img_params = [JObj [(''prompt'', txt2img_injected)]]"
    by code_simp
  have returns: "handler txt2img_env empty_world ?ev \<noteq> None"
    by code_simp
  then obtain r0 w0 where run: "handler txt2img_env empty_world ?ev = Some (r0, w0)"
    by (cases "handler txt2img_env empty_world ?ev") auto
  note given = default_is_txt2img[OF ids a b, of empty_world]
  have after: "opened w0 = opened empty_world @ [''/workflows/txt2img.json'']
             \<and> posted w0 = posted empty_world @ txt2img_request txt2img_env txt2img_params"
    using given g id nul run by blast
  have sub: "opened (snd (submission txt2img_env empty_world (JStr ''job1'') ?ev))
               = opened empty_world @ [''/workflows/txt2img.json'']
           \<and> posted (snd (submission txt2img_env empty_world (JStr ''job1'') ?ev))
               = posted empty_world @ txt2img_request txt2img_env txt2img_params"
    using given g by blast
  have final: "snd (the (handler txt2img_env empty_world ?ev)) = w0"
    by (simp add: run)
  have blank: "opened empty_world = []" "posted empty_world = []"
    by (simp_all add: empty_world_def)
  have same: "handler txt2img_env empty_world ?ev
                = handler txt2img_env empty_world (job_event ''txt2img'' txt2img_params)"
    using given by blast
  have c3: "opened (snd (the (handler txt2img_env empty_world ?ev)))
              = [''/workflows/txt2img.json'']"
    using after by (simp add: final blank)
  have c4: "posted (snd (the (handler txt2img_env empty_world ?ev)))
              = [JObj [(''prompt'', txt2img_injected)]]"
    using after by (simp add: final req blank)
  have c5: "opened (snd (submission txt2img_env empty_world (JStr ''job1'') ?ev))
              = [''/workflows/txt2img.json'']"
    using sub by (simp add: blank)
  have c6: "posted (snd (submission txt2img_env empty_world (JStr ''job1'') ?ev))
              = [JObj [(''prompt'', txt2img_injected)]]"
    using sub by (simp add: req blank)
  show ?thesis
    by (intro conjI same returns c3 c4 c5 c6)
qed

subsection \<open>The workflow named custom\<close>

lemma inject_node_other:
  assumes "\<not> output_node node" and "inject_node E n node = Inr (node', n')"
  shows "node' = node"
proof (cases "py_get node ''class_type''")
  case (Inl e)
  then show ?thesis using assms(2) by (simp add: inject_node_def bind_exn_def)
next
  case (Inr class_type)
  then have "class_type \<noteq> JStr ''SaveImage''" "class_type \<notin> set text_output_types"
    using assms(1) by (simp_all add: output_node_def)
  then show ?thesis
    using assms(2) Inr by (simp add: inject_node_def bind_exn_def)
qed

lemma inject_nodes_shape:
  "inject_nodes E n nodes = Inr nodes' \<Longrightarrow> list_all2 same_but_output nodes nodes'"
proof (induction nodes arbitrary: n nodes')
  case Nil
  then show ?case by simp
next
  case (Cons kv rest)
  obtain key node where kv: "kv = (key, node)" by (cases kv)
  from Cons.prems obtain node' n' rest' where
    step: "inject_node E n node = Inr (node', n')"
    and more: "inject_nodes E n' rest = Inr rest'"
    and res: "nodes' = (key, node') # rest'"
    by (auto simp: kv bind_exn_def split: sum.splits prod.splits)
  have "same_but_output (key, node) (key, node')"
    using inject_node_other[OF _ step] by (auto simp: same_but_output_def)
  then show ?case
    using Cons.IH[OF more] by (simp add: kv res)
qed

lemma create_prefix_shape:
  "(case create_unique_filename_prefix E payload of
      Inl e \<Rightarrow> True
    | Inr payload' \<Rightarrow> list_all2 same_but_output (nodes_of payload) (nodes_of payload'))"
proof (cases payload)
  case (JObj kvs)
  show ?thesis
    using inject_nodes_shape[of E 0 kvs]
    by (auto simp: JObj create_unique_filename_prefix_def bind_exn_def split: sum.splits)
qed (simp_all add: create_unique_filename_prefix_def bind_exn_def)

lemma requests_submission_custom:
  assumes "validated_as E event (JStr ''custom'') payload"
    and "resource_guard E = Inr ()"
  shows "requests (snd (submission E w job_id event)) = (posted w @ submitted E payload, opened w)"
proof -
  let ?w1 = "say INFO (''Workflow: '' @ py_str E (JStr ''custom'')) [job_id] w"
  have v: "validated_job E event = Continue (JStr ''custom'', payload)"
    using validated_job_as[OF assms(1)] by simp
  have b: "build_payload E w job_id (JStr ''custom'') payload =
             (create_unique_filename_prefix E payload, ?w1)"
    by (simp add: build_payload_def load_payload_def)
  show ?thesis
  proof (cases "create_unique_filename_prefix E payload")
    case (Inl e)
    then show ?thesis
      by (simp add: submission_def assms(2) accept_job_def v b submitted_def requests_def say_def)
  next
    case (Inr payload')
    obtain r w2 where q: "queue_prompt E ?w1 job_id payload' = (r, w2)"
      by (cases "queue_prompt E ?w1 job_id payload'")
    have "requests w2 = (posted w @ [JObj [(''prompt'', payload')]], opened w)"
      using requests_queue_prompt[of E ?w1 job_id payload'] q by (simp add: say_def)
    then show ?thesis
      using q
      by (cases r)
         (simp_all add: submission_def assms(2) accept_job_def v b Inr submitted_def)
  qed
qed

text \<open>
  Claim C8. For a job under an id the environment accepts (a string without a NUL
  character) that passed the resource guard and whose validated workflow name is the
  literal \<^verbatim>\<open>custom\<close>, no workflow template file is opened, neither up to
  the submission nor in the whole run of the handler, and exactly one body is posted
  to the generation service: the caller's payload after the unique-prefix injection
  (nothing is posted when the injection raises). The injection keeps the keys and the
  order of the nodes and leaves every node that is not a recognised output node as
  it was.
\<close>

theorem custom_payload_submitted_as_given:
  assumes "py_getitem event ''id'' = Inr (JStr jid)"
    and "CHR 0x00 \<notin> set jid"
    and "validated_as E event (JStr ''custom'') payload"
    and "resource_guard E = Inr ()"
  shows "opened (snd (submission E w (JStr jid) event)) = opened w
       \<and> posted (snd (submission E w (JStr jid) event)) = posted w @ submitted E payload
       \<and> (\<forall>r w'. handler E w event = Some (r, w') \<longrightarrow>
             opened w' = opened w \<and> posted w' = posted w @ submitted E payload)
       \<and> (case create_unique_filename_prefix E payload of
             Inl e \<Rightarrow> True
           | Inr payload' \<Rightarrow> list_all2 same_but_output (nodes_of payload) (nodes_of payload'))"
proof -
  have s: "requests (snd (submission E w (JStr jid) event))
             = (posted w @ submitted E payload, opened w)"
    by (rule requests_submission_custom[OF assms(3,4)])
  have h: "requests w' = (posted w @ submitted E payload, opened w)"
    if "handler E w event = Some (r, w')" for r w'
    using requests_handler[OF assms(1,2) that] s by simp
  show ?thesis
    using s h create_prefix_shape[where E=E and payload=payload] by (simp add: requests_def)
qed

theorem custom_payload_submitted_as_given_witness:
  "handler base_env empty_world (job_event ''custom'' custom_payload) \<noteq> None
   \<and> opened (snd (submission base_env empty_world (JStr ''job1'')
                  (job_event ''custom'' custom_payload))) = []
   \<and> posted (snd (submission base_env empty_world (JStr ''job1'')
                  (job_event ''custom'' custom_payload)))
       = [JObj [(''prompt'', custom_injected)]]
   \<and> opened (snd (the (handler base_env empty_world
                  (job_event ''custom'' custom_payload)))) = []
   \<and> posted (snd (the (handler base_env empty_world
                  (job_event ''custom'' custom_payload))))
       = [JObj [(''prompt'', custom_injected)]]
   \<and> list_all2 same_but_output (nodes_of custom_payload)
         (nodes_of custom_injected)"
proof -
  let ?ev = "job_event ''custom'' custom_payload"
  have id: "py_getitem ?ev ''id'' = Inr (JStr ''job1'')"
    by (simp add: job_event_def)
  have nul: "CHR 0x00 \<notin> set ''job1''"
    by simp
  have v: "validated_as base_env ?ev (JStr ''custom'') custom_payload"
    by (simp add: validated_as_def job_event_def base_env_def bind_exn_def)
  have g: "resource_guard base_env = Inr ()"
    by (simp add: resource_guard_def free_disk_check_def base_env_def DISK_MIN_FREE_BYTES_def)
  have inj: "create_unique_filename_prefix base_env custom_payload
               = Inr custom_injected"
    by code_simp
  have sub: "submitted base_env custom_payload = [JObj [(''prompt'', custom_injected)]]"
    by (simp add: submitted_def inj)
  have returns: "handler base_env empty_world ?ev \<noteq> None"
    by code_simp
  then obtain r0 w0 where run: "handler base_env empty_world ?ev = Some (r0, w0)"
    by (cases "handler base_env empty_world ?ev") auto
  note given = custom_payload_submitted_as_given[OF id nul v g, of empty_world]
  have after: "opened w0 = opened empty_world
         \<and> posted w0 = posted empty_world @ submitted base_env custom_payload"
    using given run by blast
  have final: "snd (the (handler base_env empty_world ?ev)) = w0"
    by (simp add: run)
  have blank: "opened empty_world = []" "posted empty_world = []"
    by (simp_all add: empty_world_def)
  show ?thesis
    using given after returns by (simp add: final sub inj blank)
qed

end
